theory Spec2Isabelle
  imports Complex_Main "HOL-Library.Log_Nat"
begin

section \<open>JavaScript values\<close>

text \<open>
  The emissions contract (\<^verbatim>\<open>emissionscontract.js\<close>) computes with JavaScript numbers and
  reads loosely typed JSON records. A number is a binary64 value: a real that the format
  represents, or one of the three special values. Every arithmetic operation rounds its exact
  result to the nearest representable value, ties to the even significand, and overflows to an
  infinity. The sign of zero is not modelled: a zero divisor is read as \<open>+0\<close>.
\<close>

datatype jsnum = Finite real | Infinity | NegInfinity | NaN

fun is_finite :: "jsnum \<Rightarrow> bool" where
  "is_finite (Finite x) = True"
| "is_finite Infinity = False"
| "is_finite NegInfinity = False"
| "is_finite NaN = False"

fun signed_infinity :: "real \<Rightarrow> jsnum" where
  "signed_infinity s = (if 0 < s then Infinity else if s < 0 then NegInfinity else NaN)"

fun sign_of :: "jsnum \<Rightarrow> real" where
  "sign_of (Finite x) = sgn x"
| "sign_of Infinity = 1"
| "sign_of NegInfinity = - 1"
| "sign_of NaN = 0"

fun negate :: "jsnum \<Rightarrow> jsnum" where
  "negate (Finite x) = Finite (- x)"
| "negate Infinity = NegInfinity"
| "negate NegInfinity = Infinity"
| "negate NaN = NaN"

text \<open>
  Rounding to binary64. \<open>ilog2 x\<close> is the exponent of the power of two at or below a positive
  \<open>x\<close>. A positive real is scaled so that its significand has 53 bits (fewer below
  \<open>2\<^sup>-\<^sup>1\<^sup>0\<^sup>2\<^sup>2\<close>, where the spacing stays \<open>2\<^sup>-\<^sup>1\<^sup>0\<^sup>7\<^sup>4\<close>), rounded to an integer, half to even,
  and scaled back; a result of \<open>2\<^sup>1\<^sup>0\<^sup>2\<^sup>4\<close> or more is an infinity.
\<close>

definition round_half_even :: "real \<Rightarrow> int" where
  "round_half_even s =
     (let n = \<lfloor>s\<rfloor>; r = s - of_int n
      in if r < 1 / 2 then n else if 1 / 2 < r then n + 1 else if even n then n else n + 1)"

definition ilog2 :: "real \<Rightarrow> int" where
  "ilog2 x = (if 1 \<le> x then bitlen \<lfloor>x\<rfloor> - 1 else - bitlen (\<lceil>1 / x\<rceil> - 1))"

definition round64_positive :: "real \<Rightarrow> jsnum" where
  "round64_positive x =
     (let e = max (ilog2 x - 52) (- 1074);
          y = of_int (round_half_even (x / power_int 2 e)) * power_int 2 e
      in if 2 ^ 1024 \<le> y then Infinity else Finite y)"

definition round64 :: "real \<Rightarrow> jsnum" where
  "round64 x =
     (if x = 0 then Finite 0
      else if 0 < x then round64_positive x
      else negate (round64_positive (- x)))"

instantiation jsnum :: "{plus, minus, times, inverse, ord}"
begin

fun plus_jsnum :: "jsnum \<Rightarrow> jsnum \<Rightarrow> jsnum" where
  "plus_jsnum NaN b = NaN"
| "plus_jsnum a NaN = NaN"
| "plus_jsnum (Finite a) (Finite b) = round64 (a + b)"
| "plus_jsnum (Finite a) b = b"
| "plus_jsnum a (Finite b) = a"
| "plus_jsnum a b = (if a = b then a else NaN)"

fun minus_jsnum :: "jsnum \<Rightarrow> jsnum \<Rightarrow> jsnum" where
  "minus_jsnum NaN b = NaN"
| "minus_jsnum a NaN = NaN"
| "minus_jsnum (Finite a) (Finite b) = round64 (a - b)"
| "minus_jsnum (Finite a) b = negate b"
| "minus_jsnum a (Finite b) = a"
| "minus_jsnum a b = (if a = b then NaN else a)"

fun times_jsnum :: "jsnum \<Rightarrow> jsnum \<Rightarrow> jsnum" where
  "times_jsnum NaN b = NaN"
| "times_jsnum a NaN = NaN"
| "times_jsnum (Finite a) (Finite b) = round64 (a * b)"
| "times_jsnum a b = signed_infinity (sign_of a * sign_of b)"

fun divide_jsnum :: "jsnum \<Rightarrow> jsnum \<Rightarrow> jsnum" where
  "divide_jsnum NaN b = NaN"
| "divide_jsnum a NaN = NaN"
| "divide_jsnum (Finite a) (Finite b) = (if b = 0 then signed_infinity a else round64 (a / b))"
| "divide_jsnum (Finite a) b = Finite 0"
| "divide_jsnum a (Finite b) = (if b < 0 then negate a else a)"
| "divide_jsnum a b = NaN"

fun inverse_jsnum :: "jsnum \<Rightarrow> jsnum" where
  "inverse_jsnum (Finite a) = (if a = 0 then Infinity else round64 (1 / a))"
| "inverse_jsnum NaN = NaN"
| "inverse_jsnum a = Finite 0"

fun less_jsnum :: "jsnum \<Rightarrow> jsnum \<Rightarrow> bool" where
  "less_jsnum NaN b = False"
| "less_jsnum a NaN = False"
| "less_jsnum (Finite a) (Finite b) = (a < b)"
| "less_jsnum a Infinity = (a \<noteq> Infinity)"
| "less_jsnum NegInfinity b = (b \<noteq> NegInfinity)"
| "less_jsnum a b = False"

fun less_eq_jsnum :: "jsnum \<Rightarrow> jsnum \<Rightarrow> bool" where
  "less_eq_jsnum NaN b = False"
| "less_eq_jsnum a NaN = False"
| "less_eq_jsnum (Finite a) (Finite b) = (a \<le> b)"
| "less_eq_jsnum a Infinity = True"
| "less_eq_jsnum NegInfinity b = True"
| "less_eq_jsnum a b = False"

instance ..

end

text \<open>
  A value read from a stored JSON record, or bound to a parameter: \<open>undefined\<close> (an absent
  key or a missing argument), \<open>null\<close>, a boolean, a number or a string. Strings are ASCII.
  Objects and arrays as field values are outside the model.
\<close>

datatype jsval = Undefined | Null | Bool bool | Num jsnum | Str string

text \<open>The truthiness test of \<^verbatim>\<open>if (v)\<close> and \<^verbatim>\<open>!v\<close>.\<close>

fun truthy :: "jsval \<Rightarrow> bool" where
  "truthy Undefined = False"
| "truthy Null = False"
| "truthy (Bool b) = b"
| "truthy (Num (Finite x)) = (x \<noteq> 0)"
| "truthy (Num NaN) = False"
| "truthy (Num n) = True"
| "truthy (Str s) = (s \<noteq> [])"

text \<open>What a thrown exception is: the error's name with its message.\<close>

datatype error = Error string | TypeError string | ReferenceError string | SyntaxError string

text \<open>
  \<^verbatim>\<open>String.prototype.toLowerCase\<close> on an ASCII string; calling it on a value that is not
  a string throws.
\<close>

definition char_toLowerCase :: "char \<Rightarrow> char" where
  "char_toLowerCase c =
     (case map_of (zip ''ABCDEFGHIJKLMNOPQRSTUVWXYZ'' ''abcdefghijklmnopqrstuvwxyz'') c of
        Some l \<Rightarrow> l
      | None \<Rightarrow> c)"

fun toLowerCase :: "jsval \<Rightarrow> error + string" where
  "toLowerCase (Str s) = Inr (map char_toLowerCase s)"
| "toLowerCase Undefined = Inl (TypeError ''Cannot read properties of undefined (reading 'toLowerCase')'')"
| "toLowerCase Null = Inl (TypeError ''Cannot read properties of null (reading 'toLowerCase')'')"
| "toLowerCase v = Inl (TypeError ''toLowerCase is not a function'')"

text \<open>\<^verbatim>\<open>String.prototype.split\<close> on a one-character separator, and indexing its result.\<close>

fun split :: "char \<Rightarrow> string \<Rightarrow> string list" where
  "split sep [] = [[]]"
| "split sep (c # cs) =
     (if c = sep then [] # split sep cs
      else (case split sep cs of [] \<Rightarrow> [[c]] | w # ws \<Rightarrow> (c # w) # ws))"

definition at_index :: "string list \<Rightarrow> nat \<Rightarrow> jsval" where
  "at_index xs i = (if i < length xs then Str (xs ! i) else Undefined)"

section \<open>Stored entities and collaborators\<close>

text \<open>
  The pair \<^verbatim>\<open>divisions\<close> of a utility lookup item, which is also the shape of
  \<^verbatim>\<open>newDivision\<close>; the factor query adds an optional \<^verbatim>\<open>year\<close>.
\<close>

record Division =
  division_id :: jsval
  division_type :: jsval

record QueryParams = Division +
  year :: "jsval option"

record UtilityLookupItem =
  state_province :: jsval
  divisions :: Division

record UtilityEmissionsFactorItem =
  item_year :: jsval
  item_division_type :: jsval
  item_division_id :: jsval
  net_generation :: jsval
  net_generation_uom :: jsval
  co2_equivalent_emissions :: jsval
  co2_equivalent_emissions_uom :: jsval
  non_renewables :: jsval
  renewables :: jsval
  percent_of_renewables :: jsval

text \<open>
  The text returned by the factor list's query, as \<^verbatim>\<open>JSON.parse\<close> reads it: not JSON at
  all, or an array of rows of which \<^verbatim>\<open>.Record\<close> is taken, or an array whose first row has
  no \<^verbatim>\<open>Record\<close>.
\<close>

datatype factor_response =
  Malformed | Rows "UtilityEmissionsFactorItem list" | FirstRowWithoutRecord

text \<open>
  Modelled from the spec: \<^verbatim>\<open>EmissionsRecord.createInstance\<close> (\<^verbatim>\<open>emissions.js\<close> is not among
  the sources) builds the record of section 3 from its thirteen arguments, in this order.
\<close>

record EmissionsRecord =
  uuid :: jsval
  utilityId :: jsval
  partyId :: jsval
  fromDate :: jsval
  thruDate :: jsval
  emissionsAmount :: jsval
  renewableEnergyUseAmount :: jsval
  nonrenewableEnergyUseAmount :: jsval
  energyUseUom :: jsval
  factorSource :: jsval
  url :: jsval
  md5 :: jsval
  tokenId :: jsval

text \<open>
  What the contract calls and this file does not define: the conversions of the language
  between strings and numbers, the hash, the two helpers of \<^verbatim>\<open>emissions-calc.js\<close>, and
  the three lists over the ledger \<open>'s\<close>. A helper or a list operation that throws returns
  \<open>Inl\<close>. \<open>getUtilityLookupItem\<close> stands for the read followed by \<^verbatim>\<open>JSON.parse\<close> of the
  item and of its \<^verbatim>\<open>divisions\<close>.
\<close>

record 's env =
  StringToNumber :: "string \<Rightarrow> jsnum"
  NumberToString :: "jsnum \<Rightarrow> string"
  parseFloat :: "jsval \<Rightarrow> jsnum"
  MD5 :: "string \<Rightarrow> string"
  get_uom_factor :: "jsval \<Rightarrow> error + jsval"
  get_full_year_from_date :: "string \<Rightarrow> error + jsval"
  getUtilityLookupItem :: "'s \<Rightarrow> string \<Rightarrow> error + UtilityLookupItem"
  getUtilityEmissionsFactorsByDivision :: "'s \<Rightarrow> QueryParams \<Rightarrow> error + factor_response"
  addEmissionsRecord :: "'s \<Rightarrow> EmissionsRecord \<Rightarrow> jsval \<Rightarrow> error + 's"
  updateEmissionsRecord_in_list :: "'s \<Rightarrow> EmissionsRecord \<Rightarrow> jsval \<Rightarrow> error + 's"

text \<open>The conversions \<^verbatim>\<open>Number(v)\<close> (also applied by \<^verbatim>\<open>*\<close> and \<^verbatim>\<open>/\<close>) and \<^verbatim>\<open>v + ""\<close>.\<close>

fun ToNumber :: "'s env \<Rightarrow> jsval \<Rightarrow> jsnum" where
  "ToNumber env Undefined = NaN"
| "ToNumber env Null = Finite 0"
| "ToNumber env (Bool b) = Finite (if b then 1 else 0)"
| "ToNumber env (Num n) = n"
| "ToNumber env (Str s) = StringToNumber env s"

fun ToString :: "'s env \<Rightarrow> jsval \<Rightarrow> string" where
  "ToString env Undefined = ''undefined''"
| "ToString env Null = ''null''"
| "ToString env (Bool b) = (if b then ''true'' else ''false'')"
| "ToString env (Num n) = NumberToString env n"
| "ToString env (Str s) = s"

section \<open>The division resolver\<close>

text \<open>
  \<^verbatim>\<open>getEmissionsFactor\<close>, lines 165 to 188. \<^verbatim>\<open>hasStateData\<close> is the length test on the
  item's \<^verbatim>\<open>state_province\<close> coerced to a string; both lower-casings are evaluated before
  the chain of tests, the second only when the first yields \<^verbatim>\<open>"country"\<close>.
\<close>

definition hasStateData :: "'s env \<Rightarrow> UtilityLookupItem \<Rightarrow> bool" where
  "hasStateData env utilityLookup = (length (ToString env (state_province utilityLookup)) > 0)"

definition isNonUSCountry :: "Division \<Rightarrow> string \<Rightarrow> error + bool" where
  "isNonUSCountry fetchedDivisions lowerType =
     (if lowerType = ''country''
      then (case toLowerCase (division_id fetchedDivisions) of
              Inl e \<Rightarrow> Inl e
            | Inr lowerId \<Rightarrow> Inr (lowerId \<noteq> ''usa''))
      else Inr False)"

definition newDivision :: "'s env \<Rightarrow> UtilityLookupItem \<Rightarrow> error + Division" where
  "newDivision env utilityLookup =
     (let fetchedDivisions = divisions utilityLookup in
      case toLowerCase (division_type fetchedDivisions) of
        Inl e \<Rightarrow> Inl e
      | Inr lowerType \<Rightarrow>
          (case isNonUSCountry fetchedDivisions lowerType of
             Inl e \<Rightarrow> Inl e
           | Inr nonUS \<Rightarrow>
               Inr (if hasStateData env utilityLookup
                    then \<lparr>division_id = state_province utilityLookup, division_type = Str ''STATE''\<rparr>
                    else if lowerType = ''nerc_region'' then fetchedDivisions
                    else if nonUS
                    then \<lparr>division_id = division_id fetchedDivisions, division_type = Str ''Country''\<rparr>
                    else \<lparr>division_id = Str ''USA'', division_type = Str ''COUNTRY''\<rparr>)))"

text \<open>
  Lines 196 to 209: the query parameters. The year is added when the helper returns a truthy
  value; when it throws, the exception is caught and the parameters stay without a year.
\<close>

definition queryParams :: "'s env \<Rightarrow> Division \<Rightarrow> string \<Rightarrow> QueryParams" where
  "queryParams env d thru =
     \<lparr>division_id = division_id d, division_type = division_type d,
      year = (case get_full_year_from_date env thru of
                Inl e \<Rightarrow> None
              | Inr y \<Rightarrow> if truthy y then Some y else None)\<rparr>"

text \<open>
  \<^verbatim>\<open>getEmissionsFactor\<close> as a whole. Line 192 calls \<^verbatim>\<open>reject\<close>, a name that the module
  never binds: evaluating the call throws a \<^verbatim>\<open>ReferenceError\<close> before the message is built.
\<close>

definition getEmissionsFactor ::
  "'s env \<Rightarrow> 's \<Rightarrow> string \<Rightarrow> string \<Rightarrow> error + factor_response" where
  "getEmissionsFactor env stub utility thru =
     (case getUtilityLookupItem env stub utility of
        Inl e \<Rightarrow> Inl e
      | Inr utilityLookup \<Rightarrow>
          (case newDivision env utilityLookup of
             Inl e \<Rightarrow> Inl e
           | Inr d \<Rightarrow>
               if \<not> truthy (division_id d)
               then Inl (ReferenceError ''reject is not defined'')
               else getUtilityEmissionsFactorsByDivision env stub (queryParams env d thru)))"

section \<open>The emissions calculator\<close>

text \<open>The object returned by \<^verbatim>\<open>getCo2Emissions\<close> (lines 284 to 294).\<close>

record Co2Emissions =
  emissions_value :: jsnum
  emissions_uom :: string
  co2_division_type :: jsval
  co2_division_id :: jsval
  renewable_energy_use_amount :: jsnum
  nonrenewable_energy_use_amount :: jsnum
  co2_year :: jsval

text \<open>
  Lines 239 to 260, the branch taken when \<^verbatim>\<open>percent_of_renewables\<close> is truthy. The two
  unit factors are looked up in this order; arithmetic on \<^verbatim>\<open>usage\<close> and on the factors
  converts them to numbers.
\<close>

definition percent_branch ::
  "'s env \<Rightarrow> UtilityEmissionsFactorItem \<Rightarrow> jsval \<Rightarrow> error + Co2Emissions" where
  "percent_branch env utilityFactor usage =
     (let uom = split CHR ''/'' (ToString env (co2_equivalent_emissions_uom utilityFactor)) in
      case get_uom_factor env (at_index uom 0) of
        Inl e \<Rightarrow> Inl e
      | Inr mass \<Rightarrow>
          (case get_uom_factor env (at_index uom 1) of
             Inl e \<Rightarrow> Inl e
           | Inr energy \<Rightarrow>
               (let percent = ToNumber env (percent_of_renewables utilityFactor) / Finite 100 in
                Inr \<lparr>emissions_value =
                       ToNumber env (co2_equivalent_emissions utilityFactor) * ToNumber env usage
                         * (ToNumber env mass / ToNumber env energy),
                     emissions_uom = ''g'',
                     co2_division_type = item_division_type utilityFactor,
                     co2_division_id = item_division_id utilityFactor,
                     renewable_energy_use_amount = ToNumber env usage * percent,
                     nonrenewable_energy_use_amount = ToNumber env usage * (Finite 1 - percent),
                     co2_year = item_year utilityFactor\<rparr>)))"

text \<open>Lines 263 to 282, the branch on \<^verbatim>\<open>net_generation\<close>. No divisor is tested.\<close>

definition net_generation_branch ::
  "'s env \<Rightarrow> UtilityEmissionsFactorItem \<Rightarrow> jsval \<Rightarrow> jsval \<Rightarrow> error + Co2Emissions" where
  "net_generation_branch env utilityFactor usage usage_uom =
     (case get_uom_factor env usage_uom of
        Inl e \<Rightarrow> Inl e
      | Inr f_usage \<Rightarrow>
     (case get_uom_factor env (net_generation_uom utilityFactor) of
        Inl e \<Rightarrow> Inl e
      | Inr f_net \<Rightarrow>
     (case get_uom_factor env (co2_equivalent_emissions_uom utilityFactor) of
        Inl e \<Rightarrow> Inl e
      | Inr f_co2 \<Rightarrow>
     (case get_uom_factor env (Str ''tons'') of
        Inl e \<Rightarrow> Inl e
      | Inr f_tons \<Rightarrow>
          (let usage_uom_conversion = ToNumber env f_usage / ToNumber env f_net;
               emissions_uom_conversion = ToNumber env f_co2 / ToNumber env f_tons;
               total_generation =
                 ToNumber env (non_renewables utilityFactor) + ToNumber env (renewables utilityFactor)
           in Inr \<lparr>emissions_value =
                     (ToNumber env (co2_equivalent_emissions utilityFactor)
                        / ToNumber env (net_generation utilityFactor))
                       * ToNumber env usage * usage_uom_conversion * emissions_uom_conversion,
                   emissions_uom = ''tons'',
                   co2_division_type = item_division_type utilityFactor,
                   co2_division_id = item_division_id utilityFactor,
                   renewable_energy_use_amount =
                     ToNumber env usage * (ToNumber env (renewables utilityFactor) / total_generation),
                   nonrenewable_energy_use_amount =
                     ToNumber env usage
                       * (ToNumber env (non_renewables utilityFactor) / total_generation),
                   co2_year = item_year utilityFactor\<rparr>)))))"

text \<open>Line 239: the branch is chosen by the truthiness of \<^verbatim>\<open>percent_of_renewables\<close>.\<close>

definition calculate ::
  "'s env \<Rightarrow> UtilityEmissionsFactorItem \<Rightarrow> jsval \<Rightarrow> jsval \<Rightarrow> error + Co2Emissions" where
  "calculate env utilityFactor usage usage_uom =
     (if truthy (percent_of_renewables utilityFactor)
      then percent_branch env utilityFactor usage
      else net_generation_branch env utilityFactor usage usage_uom)"

text \<open>
  \<^verbatim>\<open>getCo2Emissions\<close>: the factor query, then lines 228 to 233. Reading \<^verbatim>\<open>[0].Record\<close>
  of an empty array, or parsing a malformed answer, throws inside the \<^verbatim>\<open>try\<close>, whose
  handler throws the error of line 232. A first row without \<^verbatim>\<open>Record\<close> leaves
  \<^verbatim>\<open>utilityFactor\<close> undefined, and line 239 throws outside the \<^verbatim>\<open>try\<close>.
\<close>

definition getCo2Emissions ::
  "'s env \<Rightarrow> 's \<Rightarrow> string \<Rightarrow> string \<Rightarrow> jsval \<Rightarrow> jsval \<Rightarrow> error + Co2Emissions" where
  "getCo2Emissions env stub utility thru usage usage_uom =
     (case getEmissionsFactor env stub utility thru of
        Inl e \<Rightarrow> Inl e
      | Inr utilityFactorCall \<Rightarrow>
          (case utilityFactorCall of
             Rows (utilityFactor # others) \<Rightarrow> calculate env utilityFactor usage usage_uom
           | Rows [] \<Rightarrow> Inl (Error ''No utility emissions factor found for given query'')
           | Malformed \<Rightarrow> Inl (Error ''No utility emissions factor found for given query'')
           | FirstRowWithoutRecord \<Rightarrow>
               Inl (TypeError
                 ''Cannot read properties of undefined (reading 'percent_of_renewables')'')))"

section \<open>Recording and updating\<close>

text \<open>
  \<^verbatim>\<open>recordEmissions\<close> (lines 39 to 67). The four identifying arguments are strings, as the
  transport delivers them; the key is the hash of their concatenation. The result is the
  record together with the ledger after \<^verbatim>\<open>addEmissionsRecord\<close>.
\<close>

definition recordEmissions ::
  "'s env \<Rightarrow> 's \<Rightarrow> string \<Rightarrow> string \<Rightarrow> string \<Rightarrow> string \<Rightarrow> jsval \<Rightarrow> jsval \<Rightarrow> jsval \<Rightarrow> jsval
     \<Rightarrow> error + (EmissionsRecord \<times> 's)" where
  "recordEmissions env stub utility party from_date thru amount uom link hash =
     (case getCo2Emissions env stub utility thru amount uom of
        Inl e \<Rightarrow> Inl e
      | Inr co2Emissions \<Rightarrow>
          (let factor_source =
                 ''eGrid '' @ ToString env (co2_year co2Emissions) @ '' ''
                   @ ToString env (co2_division_type co2Emissions) @ '' ''
                   @ ToString env (co2_division_id co2Emissions);
               key = Str (MD5 env (utility @ party @ from_date @ thru));
               emissionsRecord =
                 \<lparr>uuid = key, utilityId = Str utility, partyId = Str party,
                  fromDate = Str from_date, thruDate = Str thru,
                  emissionsAmount = Num (emissions_value co2Emissions),
                  renewableEnergyUseAmount = Num (renewable_energy_use_amount co2Emissions),
                  nonrenewableEnergyUseAmount = Num (nonrenewable_energy_use_amount co2Emissions),
                  energyUseUom = uom, factorSource = Str factor_source,
                  url = link, md5 = hash, tokenId = Null\<rparr>
           in case addEmissionsRecord env stub emissionsRecord key of
                Inl e \<Rightarrow> Inl e
              | Inr stub' \<Rightarrow> Inr (emissionsRecord, stub')))"

text \<open>\<^verbatim>\<open>updateEmissionsRecord\<close> (lines 69 to 106): the caller's values, three of them parsed.\<close>

definition updateEmissionsRecord ::
  "'s env \<Rightarrow> 's \<Rightarrow> jsval \<Rightarrow> jsval \<Rightarrow> jsval \<Rightarrow> jsval \<Rightarrow> jsval \<Rightarrow> jsval \<Rightarrow> jsval \<Rightarrow> jsval \<Rightarrow> jsval
     \<Rightarrow> jsval \<Rightarrow> jsval \<Rightarrow> jsval \<Rightarrow> jsval \<Rightarrow> error + (EmissionsRecord \<times> 's)" where
  "updateEmissionsRecord env stub key utility party from_date thru amount renewable nonrenewable
       uom source link hash token =
     (let emissionsRecord =
            \<lparr>uuid = key, utilityId = utility, partyId = party, fromDate = from_date, thruDate = thru,
             emissionsAmount = Num (parseFloat env amount),
             renewableEnergyUseAmount = Num (parseFloat env renewable),
             nonrenewableEnergyUseAmount = Num (parseFloat env nonrenewable),
             energyUseUom = uom, factorSource = source, url = link, md5 = hash, tokenId = token\<rparr>
      in case updateEmissionsRecord_in_list env stub emissionsRecord key of
           Inl e \<Rightarrow> Inl e
         | Inr stub' \<Rightarrow> Inr (emissionsRecord, stub'))"

section \<open>The remote invocation client\<close>

text \<open>
  \<^verbatim>\<open>EmissionsContractInvoke\<close> parses the text of a transaction's result. A parsed value is
  a primitive, an object (its keys in order) or an array. What an operation returns is a
  string, an object or an array of objects.
\<close>

datatype json = JPrim jsval | JObject "(string \<times> json) list" | JArray "json list"

datatype client_result = Text string | Object "(string \<times> json) list" | Array "(string \<times> json) list list"

text \<open>The text of \<^verbatim>\<open>${error}\<close>: the name, then the message when there is one.\<close>

definition named_text :: "string \<Rightarrow> string \<Rightarrow> string" where
  "named_text name msg = (if msg = [] then name else name @ '': '' @ msg)"

fun error_text :: "error \<Rightarrow> string" where
  "error_text (Error m) = named_text ''Error'' m"
| "error_text (TypeError m) = named_text ''TypeError'' m"
| "error_text (ReferenceError m) = named_text ''ReferenceError'' m"
| "error_text (SyntaxError m) = named_text ''SyntaxError'' m"

text \<open>Reading \<^verbatim>\<open>o.key\<close> and assigning \<^verbatim>\<open>o[key] = v\<close>.\<close>

fun get_property :: "json \<Rightarrow> string \<Rightarrow> error + json" where
  "get_property (JPrim Undefined) key =
     Inl (TypeError (''Cannot read properties of undefined (reading '' @ key @ '')''))"
| "get_property (JPrim Null) key =
     Inl (TypeError (''Cannot read properties of null (reading '' @ key @ '')''))"
| "get_property (JPrim v) key = Inr (JPrim Undefined)"
| "get_property (JObject kvs) key =
     Inr (case map_of kvs key of None \<Rightarrow> JPrim Undefined | Some v \<Rightarrow> v)"
| "get_property (JArray xs) key = Inr (JPrim Undefined)"

fun assign :: "(string \<times> json) list \<Rightarrow> string \<Rightarrow> json \<Rightarrow> (string \<times> json) list" where
  "assign [] key v = [(key, v)]"
| "assign ((k, w) # kvs) key v = (if k = key then (k, v) # kvs else (k, w) # assign kvs key v)"

text \<open>A run of assignments \<^verbatim>\<open>result[target] = source.key\<close>, stopped by the first throw.\<close>

fun copy_fields ::
  "json \<Rightarrow> (string \<times> string) list \<Rightarrow> (string \<times> json) list \<Rightarrow> error + (string \<times> json) list" where
  "copy_fields source [] result = Inr result"
| "copy_fields source ((target, key) # more_fields) result =
     (case get_property source key of
        Inl e \<Rightarrow> Inl e
      | Inr v \<Rightarrow> copy_fields source more_fields (assign result target v))"

text \<open>
  The collaborators of the client. \<open>buildWallet\<close> stands for the steps before the connection
  (\<^verbatim>\<open>setOrgDataCA\<close>, \<^verbatim>\<open>setWalletPathByOrg\<close>, \<^verbatim>\<open>buildWallet\<close>), \<open>getContract\<close> for
  \<^verbatim>\<open>getNetwork\<close> and \<^verbatim>\<open>getContract\<close>; the two transaction calls return the result as text.
\<close>

record client_env =
  buildWallet :: "jsval \<Rightarrow> error + unit"
  gateway_connect :: "jsval \<Rightarrow> error + unit"
  getContract :: "error + unit"
  getNewUuid :: "error + jsval"
  submitTransaction :: "string \<Rightarrow> jsval list \<Rightarrow> error + string"
  evaluateTransaction :: "string \<Rightarrow> jsval list \<Rightarrow> error + string"
  JSON_parse :: "string \<Rightarrow> error + json"
  gateway_disconnect :: "error + unit"
  current_year :: real
  parseInt :: "json \<Rightarrow> jsnum"

text \<open>Lines 468 to 477: the arguments submitted after the transaction's name.\<close>

definition recordEmissions_arguments ::
  "jsval \<Rightarrow> jsval \<Rightarrow> jsval \<Rightarrow> jsval \<Rightarrow> jsval \<Rightarrow> jsval \<Rightarrow> jsval \<Rightarrow> jsval list" where
  "recordEmissions_arguments fresh utility party from_date thru amount uom =
     [fresh, utility, party, from_date, thru, amount, uom]"

text \<open>
  \<^verbatim>\<open>EmissionsContractInvoke.recordEmissions\<close>: first the outer \<^verbatim>\<open>try\<close> block (lines 441 to
  502), where \<open>Inl\<close> is an exception on its way to the outer handler, then the function with
  its handler (lines 503 to 517). A failed connection is handled inside (lines 457 to 461).
\<close>

definition recordEmissions_fields :: "(string \<times> string) list" where
  "recordEmissions_fields =
     [(''utilityId'', ''utilityId''), (''partyId'', ''partyId''), (''fromDate'', ''fromDate''),
      (''thruDate'', ''thruDate''), (''energyUseAmount'', ''emissionsAmount''),
      (''energyUseUom'', ''emissionsUom''),
      (''renewableEnergyUseAmount'', ''renewableEnergyUseAmount''),
      (''nonrenewableEnergyUseAmount'', ''nonrenewableEnergyUseAmount''),
      (''energyUseUom'', ''energyUseUom''), (''factorSource'', ''factorSource'')]"

definition invoke_recordEmissions_try ::
  "client_env \<Rightarrow> jsval \<Rightarrow> jsval \<Rightarrow> jsval \<Rightarrow> jsval \<Rightarrow> jsval \<Rightarrow> jsval \<Rightarrow> jsval \<Rightarrow> jsval
     \<Rightarrow> error + client_result" where
  "invoke_recordEmissions_try env userId orgName utility party from_date thru amount uom =
     (case buildWallet env orgName of
        Inl e \<Rightarrow> Inl e
      | Inr u1 \<Rightarrow>
     (case gateway_connect env userId of
        Inl err \<Rightarrow> Inr (Text (''ERROR: '' @ error_text err))
      | Inr u2 \<Rightarrow>
     (case getContract env of
        Inl e \<Rightarrow> Inl e
      | Inr u3 \<Rightarrow>
     (case getNewUuid env of
        Inl e \<Rightarrow> Inl e
      | Inr fresh \<Rightarrow>
     (case submitTransaction env ''recordEmissions''
             (recordEmissions_arguments fresh utility party from_date thru amount uom) of
        Inl e \<Rightarrow> Inl e
      | Inr stringResult \<Rightarrow>
     (case JSON_parse env stringResult of
        Inl e \<Rightarrow> Inl e
      | Inr jsonResult \<Rightarrow>
     (case gateway_disconnect env of
        Inl e \<Rightarrow> Inl e
      | Inr u4 \<Rightarrow>
     (case copy_fields jsonResult recordEmissions_fields
             [(''info'', JPrim (Str ''EMISSION RECORDED TO LEDGER''))] of
        Inl e \<Rightarrow> Inl e
      | Inr result \<Rightarrow> Inr (Object result)))))))))"

definition invoke_recordEmissions ::
  "client_env \<Rightarrow> jsval \<Rightarrow> jsval \<Rightarrow> jsval \<Rightarrow> jsval \<Rightarrow> jsval \<Rightarrow> jsval \<Rightarrow> jsval \<Rightarrow> jsval
     \<Rightarrow> error + client_result" where
  "invoke_recordEmissions env userId orgName utility party from_date thru amount uom =
     (case invoke_recordEmissions_try env userId orgName utility party from_date thru amount uom of
        Inr r \<Rightarrow> Inr r
      | Inl e \<Rightarrow>
          Inr (Object
            [(''info'', JPrim (Str (''Failed to submit transaction: '' @ error_text e))),
             (''utilityId'', JPrim utility), (''partyId'', JPrim party),
             (''fromDate'', JPrim from_date), (''thruDate'', JPrim thru),
             (''energyUseAmount'', JPrim amount), (''energyUseUom'', JPrim uom)]))"

text \<open>\<^verbatim>\<open>EmissionsContractInvoke.getEmissionsData\<close> (lines 520 to 579), in the same two steps.\<close>

definition emissionsData_fields :: "(string \<times> string) list" where
  "emissionsData_fields =
     [(''utilityId'', ''utilityId''), (''partyId'', ''partyId''), (''fromDate'', ''fromDate''),
      (''thruDate'', ''thruDate''), (''emissionsAmount'', ''emissionsAmount''),
      (''emissionsUom'', ''emissionsUom''),
      (''renewableEnergyUseAmount'', ''renewableEnergyUseAmount''),
      (''nonrenewableEnergyUseAmount'', ''nonrenewableEnergyUseAmount''),
      (''energyUseUom'', ''energyUseUom''), (''factorSource'', ''factorSource'')]"

definition invoke_getEmissionsData_try ::
  "client_env \<Rightarrow> jsval \<Rightarrow> jsval \<Rightarrow> jsval \<Rightarrow> error + client_result" where
  "invoke_getEmissionsData_try env userId orgName key =
     (case buildWallet env orgName of
        Inl e \<Rightarrow> Inl e
      | Inr u1 \<Rightarrow>
     (case gateway_connect env userId of
        Inl err \<Rightarrow> Inr (Text (''ERROR: '' @ error_text err))
      | Inr u2 \<Rightarrow>
     (case getContract env of
        Inl e \<Rightarrow> Inl e
      | Inr u3 \<Rightarrow>
     (case evaluateTransaction env ''getEmissionsData'' [key] of
        Inl e \<Rightarrow> Inl e
      | Inr stringResult \<Rightarrow>
     (case JSON_parse env stringResult of
        Inl e \<Rightarrow> Inl e
      | Inr jsonResult \<Rightarrow>
     (case gateway_disconnect env of
        Inl e \<Rightarrow> Inl e
      | Inr u4 \<Rightarrow>
     (case copy_fields jsonResult emissionsData_fields
             [(''info'', JPrim (Str ''UTILITY EMISSIONS DATA''))] of
        Inl e \<Rightarrow> Inl e
      | Inr result \<Rightarrow> Inr (Object result))))))))"

definition invoke_getEmissionsData ::
  "client_env \<Rightarrow> jsval \<Rightarrow> jsval \<Rightarrow> jsval \<Rightarrow> error + client_result" where
  "invoke_getEmissionsData env userId orgName key =
     (case invoke_getEmissionsData_try env userId orgName key of
        Inr r \<Rightarrow> Inr r
      | Inl e \<Rightarrow>
          Inr (Object
            [(''info'', JPrim (Str (''Failed to evaluate transaction: '' @ error_text e))),
             (''uuid'', JPrim key)]))"

text \<open>
  \<^verbatim>\<open>EmissionsContractInvoke.getAllEmissionsData\<close> (lines 581 to 654). The loop of lines 618
  to 641 runs over what the parsed result iterates; a row is skipped when the year read from
  its \<^verbatim>\<open>fromDate\<close> is below the current year minus one. The handler of lines 644 to 653
  builds an object with \<^verbatim>\<open>info\<close> and returns the empty array.
\<close>

fun iterate :: "json \<Rightarrow> error + json list" where
  "iterate (JArray xs) = Inr xs"
| "iterate (JPrim (Str s)) = Inr (map (\<lambda>c. JPrim (Str [c])) s)"
| "iterate v = Inl (TypeError ''jsonResult is not iterable'')"

fun slice_0_4 :: "json \<Rightarrow> error + json" where
  "slice_0_4 (JPrim (Str s)) = Inr (JPrim (Str (take 4 s)))"
| "slice_0_4 (JArray xs) = Inr (JArray (take 4 xs))"
| "slice_0_4 (JPrim Undefined) = Inl (TypeError ''Cannot read properties of undefined (reading slice)'')"
| "slice_0_4 (JPrim Null) = Inl (TypeError ''Cannot read properties of null (reading slice)'')"
| "slice_0_4 v = Inl (TypeError ''record.fromDate.slice is not a function'')"

fun collect_rows :: "client_env \<Rightarrow> json list \<Rightarrow> error + (string \<times> json) list list" where
  "collect_rows env [] = Inr []"
| "collect_rows env (emission_item # items) =
     (case get_property emission_item ''Record'' of
        Inl e \<Rightarrow> Inl e
      | Inr record_of_item \<Rightarrow>
     (case get_property record_of_item ''fromDate'' of
        Inl e \<Rightarrow> Inl e
      | Inr d \<Rightarrow>
     (case slice_0_4 d of
        Inl e \<Rightarrow> Inl e
      | Inr y \<Rightarrow>
          if parseInt env y < Finite (current_year env) - Finite 1 then collect_rows env items
          else (case copy_fields record_of_item emissionsData_fields
                       [(''info'', JPrim (Str ''UTILITY EMISSIONS DATA''))] of
                  Inl e \<Rightarrow> Inl e
                | Inr result \<Rightarrow>
                    (case collect_rows env items of
                       Inl e \<Rightarrow> Inl e
                     | Inr all_emissions \<Rightarrow> Inr (result # all_emissions))))))"

definition invoke_getAllEmissionsData_try ::
  "client_env \<Rightarrow> jsval \<Rightarrow> jsval \<Rightarrow> jsval \<Rightarrow> jsval \<Rightarrow> error + client_result" where
  "invoke_getAllEmissionsData_try env userId orgName utility party =
     (case buildWallet env orgName of
        Inl e \<Rightarrow> Inl e
      | Inr u1 \<Rightarrow>
     (case gateway_connect env userId of
        Inl err \<Rightarrow> Inr (Text (''ERROR: '' @ error_text err))
      | Inr u2 \<Rightarrow>
     (case getContract env of
        Inl e \<Rightarrow> Inl e
      | Inr u3 \<Rightarrow>
     (case evaluateTransaction env ''getAllEmissionsData'' [utility, party] of
        Inl e \<Rightarrow> Inl e
      | Inr stringResult \<Rightarrow>
     (case JSON_parse env stringResult of
        Inl e \<Rightarrow> Inl e
      | Inr jsonResult \<Rightarrow>
     (case gateway_disconnect env of
        Inl e \<Rightarrow> Inl e
      | Inr u4 \<Rightarrow>
     (case iterate jsonResult of
        Inl e \<Rightarrow> Inl e
      | Inr items \<Rightarrow>
     (case collect_rows env items of
        Inl e \<Rightarrow> Inl e
      | Inr all_emissions \<Rightarrow> Inr (Array all_emissions)))))))))"

definition invoke_getAllEmissionsData ::
  "client_env \<Rightarrow> jsval \<Rightarrow> jsval \<Rightarrow> jsval \<Rightarrow> jsval \<Rightarrow> error + client_result" where
  "invoke_getAllEmissionsData env userId orgName utility party =
     (case invoke_getAllEmissionsData_try env userId orgName utility party of
        Inr r \<Rightarrow> Inr r
      | Inl e \<Rightarrow> Inr (Array []))"

section \<open>The boundary between the client and the contract\<close>




section \<open>Instances for evaluation\<close>

text \<open>
  Concrete collaborators on which the contract is evaluated: the scenario of section 8 of the
  specification (utility \<open>U1\<close> in state \<open>CA\<close>, whose factor has 40 percent of renewables),
  two utilities of a grid region, one of them without a division id, a factor of that region
  for 2019 whose \<^verbatim>\<open>percent_of_renewables\<close> is zero, a factor without generation, a factor
  with 33 percent of renewables, and a factor whose generation figures are the largest power
  of two of binary64. The factor list holds the first two factors and answers a query without
  a year with every factor of the division. The unit table, the hash and the conversions are
  stand-ins for the absent ones, every number of them a binary64 value; the ledger is a list
  of keyed records.
\<close>

definition example_factor :: UtilityEmissionsFactorItem where
  "example_factor =
     \<lparr>item_year = Num (Finite 2020), item_division_type = Str ''STATE'',
      item_division_id = Str ''CA'', net_generation = Undefined, net_generation_uom = Undefined,
      co2_equivalent_emissions = Num (Finite 500), co2_equivalent_emissions_uom = Str ''lbs/MWh'',
      non_renewables = Undefined, renewables = Undefined,
      percent_of_renewables = Num (Finite 40)\<rparr>"

definition generation_factor :: UtilityEmissionsFactorItem where
  "generation_factor =
     \<lparr>item_year = Num (Finite 2019), item_division_type = Str ''NERC_REGION'',
      item_division_id = Str ''WECC'', net_generation = Num (Finite 2000),
      net_generation_uom = Str ''MWh'', co2_equivalent_emissions = Num (Finite 100),
      co2_equivalent_emissions_uom = Str ''tons'', non_renewables = Num (Finite 1500),
      renewables = Num (Finite 500), percent_of_renewables = Num (Finite 0)\<rparr>"

definition zero_generation_factor :: UtilityEmissionsFactorItem where
  "zero_generation_factor =
     \<lparr>item_year = Num (Finite 2019), item_division_type = Str ''NERC_REGION'',
      item_division_id = Str ''WECC'', net_generation = Num (Finite 0),
      net_generation_uom = Str ''MWh'', co2_equivalent_emissions = Num (Finite 100),
      co2_equivalent_emissions_uom = Str ''tons'', non_renewables = Num (Finite 0),
      renewables = Num (Finite 0), percent_of_renewables = Undefined\<rparr>"

definition percent_33_factor :: UtilityEmissionsFactorItem where
  "percent_33_factor = example_factor\<lparr>percent_of_renewables := Num (Finite 33)\<rparr>"

definition huge_generation_factor :: UtilityEmissionsFactorItem where
  "huge_generation_factor =
     generation_factor\<lparr>non_renewables := Num (Finite (2 ^ 1023)),
                        renewables := Num (Finite (2 ^ 1023)),
                        percent_of_renewables := Undefined\<rparr>"

definition example_lookup :: "string \<Rightarrow> error + UtilityLookupItem" where
  "example_lookup utility =
     (if utility = ''U1''
      then Inr \<lparr>state_province = Str ''CA'',
                divisions = \<lparr>division_id = Str ''USA'', division_type = Str ''country''\<rparr>\<rparr>
      else if utility = ''U2''
      then Inr \<lparr>state_province = Str [],
                divisions = \<lparr>division_id = Str [], division_type = Str ''NERC_REGION''\<rparr>\<rparr>
      else if utility = ''U3''
      then Inr \<lparr>state_province = Str [],
                divisions = \<lparr>division_id = Str ''WECC'', division_type = Str ''NERC_REGION''\<rparr>\<rparr>
      else Inl (Error ''no such utility''))"

definition example_uom_factor :: "jsval \<Rightarrow> error + jsval" where
  "example_uom_factor u =
     (case map_of [(Str ''lbs'', 454), (Str ''g'', 1), (Str ''kg'', 1000),
                   (Str ''tons'', 1000000), (Str ''kWh'', 1000), (Str ''MWh'', 1000000)] u of
        Some x \<Rightarrow> Inr (Num (Finite x))
      | None \<Rightarrow> Inl (Error ''unknown unit''))"

definition example_env :: "(jsval \<times> EmissionsRecord) list env" where
  "example_env =
     \<lparr>StringToNumber = (\<lambda>s. if s = ''1000'' then Finite 1000 else NaN),
      NumberToString =
        (\<lambda>n. if n = Finite 2020 then ''2020'' else if n = Finite 2019 then ''2019'' else ''NaN''),
      parseFloat = (\<lambda>v. case v of Num n \<Rightarrow> n | _ \<Rightarrow> NaN),
      MD5 = (\<lambda>s. ''md5:'' @ s),
      get_uom_factor = example_uom_factor,
      get_full_year_from_date =
        (\<lambda>d. if d = ''2020-01-31'' then Inr (Num (Finite 2020))
             else if d = ''2019-12-31'' then Inr (Num (Finite 2019))
             else Inl (Error ''invalid date'')),
      getUtilityLookupItem = (\<lambda>stub. example_lookup),
      getUtilityEmissionsFactorsByDivision =
        (\<lambda>stub q. Inr (Rows (filter (\<lambda>f. item_division_type f = division_type q
                                       \<and> item_division_id f = division_id q
                                       \<and> (year q = None \<or> year q = Some (item_year f)))
                                  [example_factor, generation_factor]))),
      addEmissionsRecord = (\<lambda>stub r key. Inr ((key, r) # stub)),
      updateEmissionsRecord_in_list =
        (\<lambda>stub r key. Inr ((key, r) # filter (\<lambda>kv. fst kv \<noteq> key) stub))\<rparr>"

text \<open>
  A client whose collaborators all succeed and whose transactions answer with one stored
  record; the failures are obtained from it by replacing one collaborator.
\<close>

definition example_client :: client_env where
  "example_client =
     \<lparr>buildWallet = (\<lambda>org. Inr ()),
      gateway_connect = (\<lambda>user. Inr ()),
      getContract = Inr (),
      getNewUuid = Inr (Str ''fresh-uuid''),
      submitTransaction = (\<lambda>name args. Inr ''record''),
      evaluateTransaction = (\<lambda>name args. Inr ''record''),
      JSON_parse =
        (\<lambda>text. if text = ''record''
                 then Inr (JObject [(''utilityId'', JPrim (Str ''U1'')), (''partyId'', JPrim (Str ''P1''))])
                 else Inl (SyntaxError ''Unexpected token'')),
      gateway_disconnect = Inr (),
      current_year = 2021,
      parseInt = (\<lambda>v. NaN)\<rparr>"

definition unreachable_client :: client_env where
  "unreachable_client =
     example_client\<lparr>gateway_connect := (\<lambda>user. Inl (Error ''connection refused''))\<rparr>"

definition rejecting_client :: client_env where
  "rejecting_client =
     example_client\<lparr>submitTransaction := (\<lambda>name args. Inl (Error ''endorsement failed''))\<rparr>"

definition garbled_client :: client_env where
  "garbled_client = example_client\<lparr>evaluateTransaction := (\<lambda>name args. Inr ''<html>'')\<rparr>"


section \<open>Evaluation and arithmetic lemmas\<close>

lemmas example_defs = example_env_def example_lookup_def example_uom_factor_def example_factor_def
  generation_factor_def zero_generation_factor_def percent_33_factor_def
  huge_generation_factor_def

lemmas contract_defs = recordEmissions_def getCo2Emissions_def getEmissionsFactor_def
  newDivision_def hasStateData_def isNonUSCountry_def queryParams_def calculate_def
  percent_branch_def net_generation_branch_def at_index_def char_toLowerCase_def Let_def

lemmas client_defs = example_client_def unreachable_client_def rejecting_client_def
  garbled_client_def

lemmas invoke_defs = invoke_recordEmissions_def invoke_recordEmissions_try_def
  invoke_getEmissionsData_def invoke_getEmissionsData_try_def
  invoke_getAllEmissionsData_def invoke_getAllEmissionsData_try_def

lemmas round64_defs = round64_def round64_positive_def ilog2_def round_half_even_def
  compute_bitlen

text \<open>A product with a factor that is not finite is not finite, and so is a quotient by zero.\<close>

lemma times_not_finite_left: "\<not> is_finite a \<Longrightarrow> \<not> is_finite (a * b)"
  by (cases a; cases b) simp_all

lemma times_not_finite_right: "\<not> is_finite b \<Longrightarrow> \<not> is_finite (a * b)"
  by (cases a; cases b) simp_all

lemma divide_by_zero_not_finite: "\<not> is_finite (a / Finite 0)"
  by (cases a) simp_all

subsection \<open>The error of rounding\<close>

text \<open>
  Rounding to an integer moves a real by at most one half; rounding to binary64 moves a real
  of magnitude at most \<open>2\<^sup>1\<^sup>0\<^sup>2\<^sup>3\<close> by at most its \<open>2\<^sup>5\<^sup>3\<close>-th part plus half of the
  smallest subnormal, and does not overflow.
\<close>

lemma round_half_even_error: "\<bar>of_int (round_half_even s) - s\<bar> \<le> 1 / 2"
proof -
  define n where "n = \<lfloor>s\<rfloor>"
  define r where "r = s - of_int n"
  have bounds: "0 \<le> r" "r < 1"
    unfolding r_def n_def by linarith+
  have rounded: "round_half_even s
      = (if r < 1 / 2 then n else if 1 / 2 < r then n + 1 else if even n then n else n + 1)"
    by (simp add: round_half_even_def Let_def n_def r_def)
  have s: "s = of_int n + r"
    by (simp add: r_def)
  consider "r < 1 / 2" | "1 / 2 < r" | "r = 1 / 2"
    by linarith
  then show ?thesis
  proof cases
    case 1
    then have "round_half_even s = n"
      using rounded by simp
    with 1 bounds s show ?thesis
      by simp
  next
    case 2
    then have "round_half_even s = n + 1"
      using rounded by simp
    with 2 bounds s show ?thesis
      by simp
  next
    case 3
    then have "round_half_even s = n \<or> round_half_even s = n + 1"
      using rounded by simp
    with 3 s show ?thesis
      by auto
  qed
qed

lemma power_int_2_nonneg: "0 \<le> k \<Longrightarrow> power_int (2::real) k = 2 ^ nat k"
  by (simp add: power_int_def)

lemma power_int_2_neg: "0 \<le> k \<Longrightarrow> power_int (2::real) (- k) = 1 / 2 ^ nat k"
  by (simp add: power_int_minus power_int_def inverse_eq_divide power_one_over)

lemma ilog2_lower:
  assumes "0 < x"
  shows "power_int 2 (ilog2 x) \<le> x"
proof (cases "1 \<le> x")
  case True
  then have n: "0 < \<lfloor>x\<rfloor>" by linarith
  from bitlen_bounds [OF n] have "(2::int) ^ nat (bitlen \<lfloor>x\<rfloor> - 1) \<le> \<lfloor>x\<rfloor>" by simp
  then have "real_of_int (2 ^ nat (bitlen \<lfloor>x\<rfloor> - 1)) \<le> real_of_int \<lfloor>x\<rfloor>"
    by (rule of_int_le_iff [THEN iffD2])
  then have "(2::real) ^ nat (bitlen \<lfloor>x\<rfloor> - 1) \<le> real_of_int \<lfloor>x\<rfloor>"
    by simp
  moreover have "real_of_int \<lfloor>x\<rfloor> \<le> x" by linarith
  ultimately have "(2::real) ^ nat (bitlen \<lfloor>x\<rfloor> - 1) \<le> x"
    by linarith
  moreover from n have "0 \<le> bitlen \<lfloor>x\<rfloor> - 1"
    by (simp add: bitlen_alt_def)
  ultimately show ?thesis
    using True by (simp add: ilog2_def power_int_2_nonneg)
next
  case False
  with assms have y: "1 < 1 / x" by simp
  let ?d = "\<lceil>1 / x\<rceil> - 1"
  from y have d: "0 < ?d" by linarith
  from bitlen_bounds [OF d] have "?d < 2 ^ nat (bitlen ?d)" by simp
  then have "\<lceil>1 / x\<rceil> \<le> 2 ^ nat (bitlen ?d)" by linarith
  then have "real_of_int \<lceil>1 / x\<rceil> \<le> real_of_int (2 ^ nat (bitlen ?d))"
    by (rule of_int_le_iff [THEN iffD2])
  then have "real_of_int \<lceil>1 / x\<rceil> \<le> 2 ^ nat (bitlen ?d)"
    by simp
  moreover have "1 / x \<le> real_of_int \<lceil>1 / x\<rceil>" by linarith
  ultimately have "1 / x \<le> 2 ^ nat (bitlen ?d)"
    by linarith
  with assms have "1 / 2 ^ nat (bitlen ?d) \<le> x"
    by (simp add: field_simps)
  moreover have "0 \<le> bitlen ?d" by (rule bitlen_nonneg)
  ultimately show ?thesis
    using False by (simp add: ilog2_def power_int_2_neg)
qed

text \<open>The spacing of binary64 at a positive \<open>x\<close>, and the error of rounding.\<close>

lemma spacing_bound:
  assumes "0 < x"
  shows "power_int 2 (max (ilog2 x - 52) (- 1074)) / 2 \<le> x / 2 ^ 53 + 1 / 2 ^ 1075"
proof (cases "- 1074 \<le> ilog2 x - 52")
  case True
  then have "max (ilog2 x - 52) (- 1074) = ilog2 x + (- 52)"
    by linarith
  moreover have "power_int (2::real) (ilog2 x + (- 52)) = power_int 2 (ilog2 x) * power_int 2 (- 52)"
    by (rule power_int_add) simp
  moreover have "power_int (2::real) (- 52) = 1 / 2 ^ 52"
    by simp
  ultimately have "power_int (2::real) (max (ilog2 x - 52) (- 1074)) / 2
      = power_int 2 (ilog2 x) / 2 ^ 53"
    by simp
  also have "\<dots> \<le> x / 2 ^ 53"
    using ilog2_lower [OF assms] by (rule divide_right_mono) simp
  finally show ?thesis
    by simp
next
  case False
  then have "max (ilog2 x - 52) (- 1074) = - 1074"
    by linarith
  moreover have "power_int (2::real) (- 1074) = 1 / 2 ^ 1074"
    by simp
  ultimately have "power_int (2::real) (max (ilog2 x - 52) (- 1074)) / 2 = 1 / 2 ^ 1075"
    by simp
  with assms show ?thesis
    by simp
qed

lemma round64_positive_error:
  assumes pos: "0 < x" and small: "x \<le> 2 ^ 1023"
  shows "\<exists>y. round64_positive x = Finite y \<and> \<bar>y - x\<bar> \<le> x / 2 ^ 53 + 1 / 2 ^ 1075"
proof -
  define p where "p = power_int (2::real) (max (ilog2 x - 52) (- 1074))"
  define y where "y = of_int (round_half_even (x / p)) * p"
  have p_pos: "0 < p"
    by (simp add: p_def)
  have "y - x = (of_int (round_half_even (x / p)) - x / p) * p"
    using p_pos by (simp add: y_def field_simps)
  then have "\<bar>y - x\<bar> = \<bar>of_int (round_half_even (x / p)) - x / p\<bar> * p"
    using p_pos by (simp add: abs_mult)
  also have "\<dots> \<le> 1 / 2 * p"
    using p_pos by (intro mult_right_mono round_half_even_error) simp
  finally have "\<bar>y - x\<bar> \<le> p / 2"
    by simp
  moreover have "p / 2 \<le> x / 2 ^ 53 + 1 / 2 ^ 1075"
    unfolding p_def by (rule spacing_bound [OF pos])
  ultimately have close: "\<bar>y - x\<bar> \<le> x / 2 ^ 53 + 1 / 2 ^ 1075"
    by linarith
  with small have "y < 2 ^ 1024"
    by simp
  then have "round64_positive x = Finite y"
    by (simp add: round64_positive_def Let_def p_def y_def)
  with close show ?thesis
    by blast
qed

lemma round64_error:
  assumes "\<bar>x\<bar> \<le> 2 ^ 1023"
  shows "\<exists>y. round64 x = Finite y \<and> \<bar>y - x\<bar> \<le> \<bar>x\<bar> / 2 ^ 53 + 1 / 2 ^ 1075"
proof -
  consider "x = 0" | "0 < x" | "x < 0"
    by linarith
  then show ?thesis
  proof cases
    case 1
    then show ?thesis
      by (simp add: round64_def)
  next
    case 2
    with assms round64_positive_error [of x] show ?thesis
      by (simp add: round64_def)
  next
    case 3
    with assms have "0 < - x" "- x \<le> 2 ^ 1023"
      by simp_all
    from round64_positive_error [OF this]
    obtain y where y: "round64_positive (- x) = Finite y"
      and close: "\<bar>y - (- x)\<bar> \<le> - x / 2 ^ 53 + 1 / 2 ^ 1075"
      by blast
    from 3 y have "round64 x = Finite (- y)"
      by (simp add: round64_def)
    moreover have "\<bar>- y - x\<bar> = \<bar>y - (- x)\<bar>"
      by (simp add: abs_minus_commute)
    moreover from 3 have "\<bar>x\<bar> = - x"
      by simp
    ultimately have "round64 x = Finite (- y) \<and> \<bar>- y - x\<bar> \<le> \<bar>x\<bar> / 2 ^ 53 + 1 / 2 ^ 1075"
      using close by simp
    then show ?thesis
      by blast
  qed
qed

lemma rounded_within:
  assumes "\<bar>x\<bar> \<le> B" and "B \<le> 2 ^ 1023"
  shows "\<exists>y. round64 x = Finite y \<and> \<bar>y - x\<bar> \<le> B / 2 ^ 53 + 1 / 2 ^ 1075"
proof -
  from assms have "\<bar>x\<bar> \<le> 2 ^ 1023"
    by linarith
  from round64_error [OF this]
  obtain y where "round64 x = Finite y" "\<bar>y - x\<bar> \<le> \<bar>x\<bar> / 2 ^ 53 + 1 / 2 ^ 1075"
    by blast
  moreover from assms(1) have "\<bar>x\<bar> / 2 ^ 53 \<le> B / 2 ^ 53"
    by (rule divide_right_mono) simp
  ultimately have "round64 x = Finite y \<and> \<bar>y - x\<bar> \<le> B / 2 ^ 53 + 1 / 2 ^ 1075"
    by (simp; linarith)
  then show ?thesis
    by blast
qed

lemma product_bound:
  fixes u k :: real
  assumes "\<bar>k\<bar> \<le> 4"
  shows "\<bar>u * k\<bar> \<le> 4 * \<bar>u\<bar>"
proof -
  have "\<bar>u * k\<bar> = \<bar>u\<bar> * \<bar>k\<bar>"
    by (rule abs_mult)
  also have "\<dots> \<le> \<bar>u\<bar> * 4"
    using assms by (intro mult_left_mono) simp_all
  finally show ?thesis
    by simp
qed

lemma share_within:
  fixes u k :: real
  assumes u: "\<bar>u\<bar> \<le> 2 ^ 1000" and k: "\<bar>k\<bar> \<le> 4"
  shows "\<exists>r. Finite u * Finite k = Finite r
     \<and> \<bar>r - u * k\<bar> \<le> 4 * \<bar>u\<bar> / 2 ^ 53 + 1 / 2 ^ 1075"
proof -
  have "\<bar>u * k\<bar> \<le> 4 * \<bar>u\<bar>"
    using k by (rule product_bound)
  moreover from u have "4 * \<bar>u\<bar> \<le> 2 ^ 1023"
    by simp
  ultimately show ?thesis
    using rounded_within [of "u * k" "4 * \<bar>u\<bar>"] by simp
qed

lemma four_errors:
  fixes s u r n a b :: real
  shows "\<bar>s - u\<bar> \<le> \<bar>s - (r + n)\<bar> + \<bar>r - a\<bar> + \<bar>n - b\<bar> + \<bar>a + b - u\<bar>"
  by linarith

lemma error_budget:
  fixes U :: real
  shows "(9 * U + 1 / 2 ^ 1074) / 2 ^ 53 + 1 / 2 ^ 1075
     + (4 * U / 2 ^ 53 + 1 / 2 ^ 1075) + (4 * U / 2 ^ 53 + 1 / 2 ^ 1075) + U * (15 / 2 ^ 53)
     \<le> U / 2 ^ 48 + 1 / 2 ^ 1073"
proof -
  define x where "x = U / 2 ^ 53"
  define t :: real where "t = 1 / 2 ^ 1075"
  have a: "(9 * U + 1 / 2 ^ 1074) / 2 ^ 53 = 9 * x + 2 * t / 2 ^ 53"
    unfolding x_def t_def by (simp add: add_divide_distrib)
  have b: "4 * U / 2 ^ 53 = 4 * x" unfolding x_def by simp
  have c: "U * (15 / 2 ^ 53) = 15 * x" unfolding x_def by simp
  have d: "U / 2 ^ 48 = 32 * x" unfolding x_def by simp
  have e: "1 / 2 ^ 1073 = 4 * t" unfolding t_def by simp
  have "0 \<le> t" unfolding t_def by simp
  then have f: "2 * t / 2 ^ 53 \<le> t" by simp
  show ?thesis
    unfolding a b c d e t_def [symmetric] using f by linarith
qed

lemma shares_sum_within:
  fixes u k1 k2 :: real
  assumes u: "\<bar>u\<bar> \<le> 2 ^ 1000" and k1: "\<bar>k1\<bar> \<le> 4" and k2: "\<bar>k2\<bar> \<le> 4"
    and whole: "\<bar>k1 + k2 - 1\<bar> \<le> 15 / 2 ^ 53"
  shows "\<exists>s. Finite u * Finite k1 + Finite u * Finite k2 = Finite s
     \<and> \<bar>s - u\<bar> \<le> \<bar>u\<bar> / 2 ^ 48 + 1 / 2 ^ 1073"
proof -
  from share_within [OF u k1] obtain r where r: "Finite u * Finite k1 = Finite r"
    and r_close: "\<bar>r - u * k1\<bar> \<le> 4 * \<bar>u\<bar> / 2 ^ 53 + 1 / 2 ^ 1075"
    by blast
  from share_within [OF u k2] obtain n where n: "Finite u * Finite k2 = Finite n"
    and n_close: "\<bar>n - u * k2\<bar> \<le> 4 * \<bar>u\<bar> / 2 ^ 53 + 1 / 2 ^ 1075"
    by blast
  have p1: "\<bar>u * k1\<bar> \<le> 4 * \<bar>u\<bar>" using k1 by (rule product_bound)
  have p2: "\<bar>u * k2\<bar> \<le> 4 * \<bar>u\<bar>" using k2 by (rule product_bound)
  have size: "\<bar>r + n\<bar> \<le> 9 * \<bar>u\<bar> + 1 / 2 ^ 1074"
    using r_close n_close p1 p2 by (simp; linarith)
  moreover from u have "9 * \<bar>u\<bar> + 1 / 2 ^ 1074 \<le> 2 ^ 1023"
    by simp
  ultimately obtain s where s: "round64 (r + n) = Finite s"
    and s_close: "\<bar>s - (r + n)\<bar> \<le> (9 * \<bar>u\<bar> + 1 / 2 ^ 1074) / 2 ^ 53 + 1 / 2 ^ 1075"
    using rounded_within [of "r + n" "9 * \<bar>u\<bar> + 1 / 2 ^ 1074"] by blast
  have "\<bar>u * (k1 + k2 - 1)\<bar> = \<bar>u\<bar> * \<bar>k1 + k2 - 1\<bar>"
    by (rule abs_mult)
  also have "\<dots> \<le> \<bar>u\<bar> * (15 / 2 ^ 53)"
    using whole by (intro mult_left_mono) simp_all
  finally have whole_close: "\<bar>u * k1 + u * k2 - u\<bar> \<le> \<bar>u\<bar> * (15 / 2 ^ 53)"
    by (simp add: algebra_simps)
  have "\<bar>s - u\<bar>
      \<le> \<bar>s - (r + n)\<bar> + \<bar>r - u * k1\<bar> + \<bar>n - u * k2\<bar> + \<bar>u * k1 + u * k2 - u\<bar>"
    by (rule four_errors)
  also have "\<dots> \<le> (9 * \<bar>u\<bar> + 1 / 2 ^ 1074) / 2 ^ 53 + 1 / 2 ^ 1075
      + (4 * \<bar>u\<bar> / 2 ^ 53 + 1 / 2 ^ 1075) + (4 * \<bar>u\<bar> / 2 ^ 53 + 1 / 2 ^ 1075)
      + \<bar>u\<bar> * (15 / 2 ^ 53)"
    by (intro add_mono s_close r_close n_close whole_close)
  also have "\<dots> \<le> \<bar>u\<bar> / 2 ^ 48 + 1 / 2 ^ 1073"
    by (rule error_budget)
  finally have "\<bar>s - u\<bar> \<le> \<bar>u\<bar> / 2 ^ 48 + 1 / 2 ^ 1073" .
  moreover have "Finite u * Finite k1 + Finite u * Finite k2 = Finite s"
    using r n s by simp
  ultimately show ?thesis
    by blast
qed

lemma percent_shares_within:
  fixes u p :: real
  assumes u: "\<bar>u\<bar> \<le> 2 ^ 1000" and p: "\<bar>p\<bar> \<le> 100"
  shows "\<exists>s. Finite u * (Finite p / Finite 100)
       + Finite u * (Finite 1 - Finite p / Finite 100) = Finite s
     \<and> \<bar>s - u\<bar> \<le> \<bar>u\<bar> / 2 ^ 48 + 1 / 2 ^ 1073"
proof -
  have ratio: "\<bar>p / 100\<bar> \<le> 1"
    using p by simp
  from rounded_within [OF ratio] obtain k1 where k1: "round64 (p / 100) = Finite k1"
    and k1_close: "\<bar>k1 - p / 100\<bar> \<le> 1 / 2 ^ 53 + 1 / 2 ^ 1075"
    by auto
  have small: "(1::real) / 2 ^ 53 + 1 / 2 ^ 1075 \<le> 1 / 4"
    by simp
  have k1_bound: "\<bar>k1\<bar> \<le> 2"
    using k1_close ratio small by linarith
  then have "\<bar>1 - k1\<bar> \<le> 3"
    by linarith
  from rounded_within [OF this] obtain k2 where k2: "round64 (1 - k1) = Finite k2"
    and k2_close: "\<bar>k2 - (1 - k1)\<bar> \<le> 3 / 2 ^ 53 + 1 / 2 ^ 1075"
    by auto
  have small3: "(3::real) / 2 ^ 53 + 1 / 2 ^ 1075 \<le> 15 / 2 ^ 53"
    by simp
  have "\<bar>k1\<bar> \<le> 4"
    using k1_bound by linarith
  moreover have "\<bar>k2 - (1 - k1)\<bar> \<le> 1"
  proof -
    have "(3::real) / 2 ^ 53 + 1 / 2 ^ 1075 \<le> 1"
      by simp
    with k2_close show ?thesis
      by (rule order_trans)
  qed
  then have "\<bar>k2\<bar> \<le> 4"
    using k1_bound by linarith
  moreover have "\<bar>k1 + k2 - 1\<bar> \<le> 15 / 2 ^ 53"
    using k2_close small3 by linarith
  ultimately obtain s where "Finite u * Finite k1 + Finite u * Finite k2 = Finite s"
    and "\<bar>s - u\<bar> \<le> \<bar>u\<bar> / 2 ^ 48 + 1 / 2 ^ 1073"
    using shares_sum_within [OF u] by blast
  then show ?thesis
    using k1 k2 by simp
qed

lemma quotient_within:
  fixes a t T :: real
  assumes a: "0 \<le> a" and aT: "a \<le> T" and t: "0 < t" and Tt: "T \<le> 2 * t"
  shows "\<exists>q. Finite a / Finite t = Finite q \<and> \<bar>q - a / t\<bar> \<le> 2 / 2 ^ 53 + 1 / 2 ^ 1075
     \<and> \<bar>q\<bar> \<le> 4"
proof -
  have "a / t \<le> 2"
    using aT Tt t by (simp add: pos_divide_le_eq)
  moreover have "0 \<le> a / t"
    using a t by simp
  ultimately have "\<bar>a / t\<bar> \<le> 2"
    by simp
  from rounded_within [OF this] obtain q where q: "round64 (a / t) = Finite q"
    and q_close: "\<bar>q - a / t\<bar> \<le> 2 / 2 ^ 53 + 1 / 2 ^ 1075"
    by auto
  have "(2::real) / 2 ^ 53 + 1 / 2 ^ 1075 \<le> 1"
    by simp
  with q_close have "\<bar>q - a / t\<bar> \<le> 1"
    by (rule order_trans)
  with \<open>\<bar>a / t\<bar> \<le> 2\<close> have "\<bar>q\<bar> \<le> 4"
    by linarith
  moreover have "Finite a / Finite t = Finite q"
    using t q by simp
  ultimately show ?thesis
    using q_close by blast
qed

lemma generation_shares_within:
  fixes u a b :: real
  assumes u: "\<bar>u\<bar> \<le> 2 ^ 1000" and a: "0 \<le> a" and b: "0 \<le> b"
    and low: "1 / 2 ^ 1000 \<le> b + a" and high: "b + a \<le> 2 ^ 1000"
  shows "\<exists>s. Finite u * (Finite a / (Finite b + Finite a))
       + Finite u * (Finite b / (Finite b + Finite a)) = Finite s
     \<and> \<bar>s - u\<bar> \<le> \<bar>u\<bar> / 2 ^ 48 + 1 / 2 ^ 1073"
proof -
  define T where "T = b + a"
  have T_low: "1 / 2 ^ 1000 \<le> T" and T_high: "T \<le> 2 ^ 1000"
    using low high by (simp_all add: T_def)
  have "(0::real) < 1 / 2 ^ 1000"
    by simp
  then have T_pos: "0 < T"
    using T_low by (rule less_le_trans)
  have "T \<le> 2 ^ 1023"
    using T_high by (rule order_trans) simp
  with T_pos have "\<bar>T\<bar> \<le> 2 ^ 1023"
    by simp
  from round64_error [OF this] T_pos obtain t where t: "round64 T = Finite t"
    and t_close: "\<bar>t - T\<bar> \<le> T / 2 ^ 53 + 1 / 2 ^ 1075"
    by auto
  have "(1::real) / 2 ^ 1075 = 1 / 2 ^ 1000 / 2 ^ 75"
    by simp
  also have "\<dots> \<le> T / 2 ^ 75"
    using T_low by (rule divide_right_mono) simp
  finally have tiny: "1 / 2 ^ 1075 \<le> T / 2 ^ 75" .
  define x where "x = T / 2 ^ 53"
  have x_pos: "0 < x"
    using T_pos by (simp add: x_def)
  have T_x: "T = 2 ^ 53 * x"
    by (simp add: x_def)
  have "T / 2 ^ 75 = x / 2 ^ 22"
    by (simp add: x_def)
  also have "\<dots> \<le> x"
    using x_pos by simp
  finally have "T / 2 ^ 75 \<le> x" .
  with tiny have "1 / 2 ^ 1075 \<le> x"
    by (rule order_trans)
  with t_close have t_x: "\<bar>t - T\<bar> \<le> 2 * x"
    unfolding x_def [symmetric] by linarith
  have "4 * x \<le> T"
    using x_pos by (simp add: T_x)
  with t_x have T_t: "T \<le> 2 * t"
    by linarith
  with T_pos have t_pos: "0 < t"
    by linarith
  have sum: "Finite b + Finite a = Finite t"
    using t by (simp add: T_def)
  have aT: "a \<le> T" and bT: "b \<le> T"
    using a b by (simp_all add: T_def)
  from quotient_within [OF a aT t_pos T_t] obtain fa where fa: "Finite a / Finite t = Finite fa"
    and fa_close: "\<bar>fa - a / t\<bar> \<le> 2 / 2 ^ 53 + 1 / 2 ^ 1075" and fa_bound: "\<bar>fa\<bar> \<le> 4"
    by blast
  from quotient_within [OF b bT t_pos T_t] obtain fb where fb: "Finite b / Finite t = Finite fb"
    and fb_close: "\<bar>fb - b / t\<bar> \<le> 2 / 2 ^ 53 + 1 / 2 ^ 1075" and fb_bound: "\<bar>fb\<bar> \<le> 4"
    by blast
  have "a / t + b / t - 1 = (T - t) / t"
    using t_pos by (simp add: T_def field_simps)
  then have "\<bar>a / t + b / t - 1\<bar> = \<bar>T - t\<bar> / t"
    using t_pos by simp
  also have "\<dots> \<le> 4 / 2 ^ 53"
  proof -
    have "\<bar>T - t\<bar> \<le> 2 * x"
      using t_x by linarith
    also have "2 * x = 2 * T / 2 ^ 53"
      by (simp add: x_def)
    also have "\<dots> \<le> 4 * t / 2 ^ 53"
      using T_t by (intro divide_right_mono) simp_all
    also have "\<dots> = 4 / 2 ^ 53 * t"
      by simp
    finally show ?thesis
      using t_pos by (simp only: pos_divide_le_eq)
  qed
  finally have ratio: "\<bar>a / t + b / t - 1\<bar> \<le> 4 / 2 ^ 53" .
  have "\<bar>fa + fb - 1\<bar> \<le> \<bar>fa - a / t\<bar> + \<bar>fb - b / t\<bar> + \<bar>a / t + b / t - 1\<bar>"
    by linarith
  also have "\<dots> \<le> (2 / 2 ^ 53 + 1 / 2 ^ 1075) + (2 / 2 ^ 53 + 1 / 2 ^ 1075) + 4 / 2 ^ 53"
    by (intro add_mono fa_close fb_close ratio)
  also have "\<dots> \<le> 15 / 2 ^ 53"
    by simp
  finally have "\<bar>fa + fb - 1\<bar> \<le> 15 / 2 ^ 53" .
  from shares_sum_within [OF u fa_bound fb_bound this] show ?thesis
    using sum fa fb by simp
qed

subsection \<open>The contract on the instances\<close>

lemma example_factor_run:
  "calculate example_env example_factor (Str ''1000'') (Str ''MWh'')
     = Inr \<lparr>emissions_value = Finite 227, emissions_uom = ''g'',
            co2_division_type = Str ''STATE'', co2_division_id = Str ''CA'',
            renewable_energy_use_amount = Finite 400,
            nonrenewable_energy_use_amount = Finite 600,
            co2_year = Num (Finite 2020)\<rparr>"
  by (simp add: example_defs contract_defs round64_defs)

lemma generation_factor_run:
  "calculate example_env generation_factor (Str ''1000'') (Str ''MWh'')
     = Inr \<lparr>emissions_value = Finite 50, emissions_uom = ''tons'',
            co2_division_type = Str ''NERC_REGION'', co2_division_id = Str ''WECC'',
            renewable_energy_use_amount = Finite 250,
            nonrenewable_energy_use_amount = Finite 750,
            co2_year = Num (Finite 2019)\<rparr>"
  by (simp add: example_defs contract_defs round64_defs)

lemma percent_33_factor_run:
  "calculate example_env percent_33_factor (Str ''1000'') (Str ''MWh'')
     = Inr \<lparr>emissions_value = Finite 227, emissions_uom = ''g'',
            co2_division_type = Str ''STATE'', co2_division_id = Str ''CA'',
            renewable_energy_use_amount = Finite 330,
            nonrenewable_energy_use_amount = Finite (5893382324879359 / 8796093022208),
            co2_year = Num (Finite 2020)\<rparr>"
  by (simp add: example_defs contract_defs round64_defs)

section \<open>Division resolution\<close>

text \<open>
  On a lookup item whose \<^verbatim>\<open>state_province\<close> is a string, the resolver follows the order
  state, grid region, foreign country, national default.
\<close>

lemma newDivision_precedence:
  "newDivision env
     \<lparr>state_province = Str s, divisions = \<lparr>division_id = Str i, division_type = Str t\<rparr>\<rparr>
   = Inr (if s \<noteq> [] then \<lparr>division_id = Str s, division_type = Str ''STATE''\<rparr>
          else if map char_toLowerCase t = ''nerc_region''
          then \<lparr>division_id = Str i, division_type = Str t\<rparr>
          else if map char_toLowerCase t = ''country'' \<and> map char_toLowerCase i \<noteq> ''usa''
          then \<lparr>division_id = Str i, division_type = Str ''Country''\<rparr>
          else \<lparr>division_id = Str ''USA'', division_type = Str ''COUNTRY''\<rparr>)"
  by (simp add: newDivision_def hasStateData_def isNonUSCountry_def Let_def)

text \<open>
  C1 (division resolution precedence). The claim sends a lookup item whose
  \<^verbatim>\<open>state_province\<close> is absent or empty to the tests on its division. The contract coerces
  the field to a string before measuring it, and an absent field reads \<^verbatim>\<open>"undefined"\<close>, of
  length nine: for an item of the grid region \<open>WECC\<close> without \<^verbatim>\<open>state_province\<close> the
  resolved division is a state whose id is \<open>undefined\<close>, not the region.
\<close>

theorem newDivision_absent_state_province:
  "newDivision env
     \<lparr>state_province = Undefined,
      divisions = \<lparr>division_id = Str ''WECC'', division_type = Str ''NERC_REGION''\<rparr>\<rparr>
   = Inr \<lparr>division_id = Undefined, division_type = Str ''STATE''\<rparr>"
  by (simp add: newDivision_def hasStateData_def isNonUSCountry_def char_toLowerCase_def)

text \<open>
  C7 (resolution failure mode). The claim asks for a resolution error that names the utility
  when the resolved division has no id. Whenever the resolved \<^verbatim>\<open>division_id\<close> is falsy, the
  contract reaches the call of the unbound name \<^verbatim>\<open>reject\<close>: the outcome is a
  \<^verbatim>\<open>ReferenceError\<close>, and not the error with the message of line 192.
\<close>

theorem empty_division_id_throws_ReferenceError:
  assumes "getUtilityLookupItem env stub utility = Inr utilityLookup"
    and "newDivision env utilityLookup = Inr d"
    and "\<not> truthy (division_id d)"
  shows "getEmissionsFactor env stub utility thru = Inl (ReferenceError ''reject is not defined'')
         \<and> getEmissionsFactor env stub utility thru
             \<noteq> Inl (Error (''Utility ['' @ utility @ ''] does not have a Division ID''))"
  using assms by (simp add: getEmissionsFactor_def)

theorem empty_division_id_witness:
  "getEmissionsFactor example_env [] ''U2'' ''2020-01-31''
     = Inl (ReferenceError ''reject is not defined'')
   \<and> getEmissionsFactor example_env [] ''U2'' ''2020-01-31''
       \<noteq> Inl (Error (''Utility ['' @ ''U2'' @ ''] does not have a Division ID''))"
proof -
  let ?item = "\<lparr>state_province = Str [],
                 divisions = \<lparr>division_id = Str [], division_type = Str ''NERC_REGION''\<rparr>\<rparr>"
  let ?d = "\<lparr>division_id = Str [], division_type = Str ''NERC_REGION''\<rparr>"
  have found: "getUtilityLookupItem example_env [] ''U2'' = Inr ?item"
    by (simp add: example_env_def example_lookup_def)
  have resolved: "newDivision example_env ?item = Inr ?d"
    by (simp add: newDivision_def hasStateData_def isNonUSCountry_def char_toLowerCase_def)
  have no_id: "\<not> truthy (division_id ?d)"
    by simp
  show ?thesis
    by (rule empty_division_id_throws_ReferenceError [OF found resolved no_id])
qed

section \<open>The factor lookup\<close>

text \<open>
  C5 (factor lookup contract of \<^verbatim>\<open>recordEmissions\<close>). Once the division is resolved with an
  id, the factor list is queried with that division. The query carries the year that the
  helper returned when that year is truthy; it carries none when the helper returned a falsy
  value, and none when the helper throws, which fails nothing. An answer of zero rows fails
  \<^verbatim>\<open>getCo2Emissions\<close> and \<^verbatim>\<open>recordEmissions\<close> with the error of line 232. On an answer with
  a first row the calculation runs on that row: \<^verbatim>\<open>recordEmissions\<close> fails as the calculation
  fails, and otherwise hands the emissions list the record built from the calculation's
  result, under the hash of the four identifying arguments. On an answer whose first row has
  no \<^verbatim>\<open>Record\<close> the call fails with a \<^verbatim>\<open>TypeError\<close>.
\<close>

theorem factor_lookup_contract:
  assumes found: "getUtilityLookupItem env stub utility = Inr utilityLookup"
    and resolved: "newDivision env utilityLookup = Inr d"
    and has_id: "truthy (division_id d)"
  shows
   "getEmissionsFactor env stub utility thru
      = getUtilityEmissionsFactorsByDivision env stub (queryParams env d thru)
    \<and> division_id (queryParams env d thru) = division_id d
    \<and> division_type (queryParams env d thru) = division_type d
    \<and> (\<forall>e. get_full_year_from_date env thru = Inl e \<longrightarrow> year (queryParams env d thru) = None)
    \<and> (\<forall>y. get_full_year_from_date env thru = Inr y \<and> truthy y
           \<longrightarrow> year (queryParams env d thru) = Some y)
    \<and> (\<forall>y. get_full_year_from_date env thru = Inr y \<and> \<not> truthy y
           \<longrightarrow> year (queryParams env d thru) = None)
    \<and> (\<forall>y. year (queryParams env d thru) = Some y \<longrightarrow> get_full_year_from_date env thru = Inr y)
    \<and> (getUtilityEmissionsFactorsByDivision env stub (queryParams env d thru) = Inr (Rows [])
         \<longrightarrow> getCo2Emissions env stub utility thru usage usage_uom
               = Inl (Error ''No utility emissions factor found for given query'')
           \<and> recordEmissions env stub utility party from_date thru usage usage_uom link hash
               = Inl (Error ''No utility emissions factor found for given query''))
    \<and> (\<forall>f fs. getUtilityEmissionsFactorsByDivision env stub (queryParams env d thru)
                  = Inr (Rows (f # fs))
         \<longrightarrow> getCo2Emissions env stub utility thru usage usage_uom
               = calculate env f usage usage_uom
           \<and> (\<forall>e. calculate env f usage usage_uom = Inl e
                 \<longrightarrow> recordEmissions env stub utility party from_date thru usage usage_uom
                         link hash = Inl e)
           \<and> (\<forall>c. calculate env f usage usage_uom = Inr c
                 \<longrightarrow> recordEmissions env stub utility party from_date thru usage usage_uom
                         link hash
                     = (let emissionsRecord =
                              \<lparr>uuid = Str (MD5 env (utility @ party @ from_date @ thru)),
                               utilityId = Str utility, partyId = Str party,
                               fromDate = Str from_date, thruDate = Str thru,
                               emissionsAmount = Num (emissions_value c),
                               renewableEnergyUseAmount = Num (renewable_energy_use_amount c),
                               nonrenewableEnergyUseAmount =
                                 Num (nonrenewable_energy_use_amount c),
                               energyUseUom = usage_uom,
                               factorSource =
                                 Str (''eGrid '' @ ToString env (co2_year c) @ '' ''
                                        @ ToString env (co2_division_type c) @ '' ''
                                        @ ToString env (co2_division_id c)),
                               url = link, md5 = hash, tokenId = Null\<rparr>
                        in case addEmissionsRecord env stub emissionsRecord
                                  (Str (MD5 env (utility @ party @ from_date @ thru))) of
                             Inl e \<Rightarrow> Inl e
                           | Inr stub' \<Rightarrow> Inr (emissionsRecord, stub'))))
    \<and> (getUtilityEmissionsFactorsByDivision env stub (queryParams env d thru)
          = Inr FirstRowWithoutRecord
         \<longrightarrow> getCo2Emissions env stub utility thru usage usage_uom
               = Inl (TypeError
                   ''Cannot read properties of undefined (reading 'percent_of_renewables')''))"
proof -
  have query: "getEmissionsFactor env stub utility thru
      = getUtilityEmissionsFactorsByDivision env stub (queryParams env d thru)"
    using assms by (simp add: getEmissionsFactor_def)
  have year_omitted:
    "\<forall>e. get_full_year_from_date env thru = Inl e \<longrightarrow> year (queryParams env d thru) = None"
    by (simp add: queryParams_def)
  have year_added:
    "\<forall>y. get_full_year_from_date env thru = Inr y \<and> truthy y
        \<longrightarrow> year (queryParams env d thru) = Some y"
    by (simp add: queryParams_def)
  have year_falsy:
    "\<forall>y. get_full_year_from_date env thru = Inr y \<and> \<not> truthy y
        \<longrightarrow> year (queryParams env d thru) = None"
    by (simp add: queryParams_def)
  have year_extracted:
    "\<forall>y. year (queryParams env d thru) = Some y \<longrightarrow> get_full_year_from_date env thru = Inr y"
    by (auto simp add: queryParams_def split: sum.splits if_splits)
  have no_rows:
    "getUtilityEmissionsFactorsByDivision env stub (queryParams env d thru) = Inr (Rows [])
       \<longrightarrow> getCo2Emissions env stub utility thru usage usage_uom
             = Inl (Error ''No utility emissions factor found for given query'')
         \<and> recordEmissions env stub utility party from_date thru usage usage_uom link hash
             = Inl (Error ''No utility emissions factor found for given query'')"
    using query by (simp add: getCo2Emissions_def recordEmissions_def)
  have first_row:
    "\<forall>f fs. getUtilityEmissionsFactorsByDivision env stub (queryParams env d thru)
               = Inr (Rows (f # fs))
       \<longrightarrow> getCo2Emissions env stub utility thru usage usage_uom = calculate env f usage usage_uom
         \<and> (\<forall>e. calculate env f usage usage_uom = Inl e
               \<longrightarrow> recordEmissions env stub utility party from_date thru usage usage_uom
                       link hash = Inl e)
         \<and> (\<forall>c. calculate env f usage usage_uom = Inr c
               \<longrightarrow> recordEmissions env stub utility party from_date thru usage usage_uom
                       link hash
                   = (let emissionsRecord =
                            \<lparr>uuid = Str (MD5 env (utility @ party @ from_date @ thru)),
                             utilityId = Str utility, partyId = Str party,
                             fromDate = Str from_date, thruDate = Str thru,
                             emissionsAmount = Num (emissions_value c),
                             renewableEnergyUseAmount = Num (renewable_energy_use_amount c),
                             nonrenewableEnergyUseAmount =
                               Num (nonrenewable_energy_use_amount c),
                             energyUseUom = usage_uom,
                             factorSource =
                               Str (''eGrid '' @ ToString env (co2_year c) @ '' ''
                                      @ ToString env (co2_division_type c) @ '' ''
                                      @ ToString env (co2_division_id c)),
                             url = link, md5 = hash, tokenId = Null\<rparr>
                      in case addEmissionsRecord env stub emissionsRecord
                                (Str (MD5 env (utility @ party @ from_date @ thru))) of
                           Inl e \<Rightarrow> Inl e
                         | Inr stub' \<Rightarrow> Inr (emissionsRecord, stub')))"
    using query by (simp add: getCo2Emissions_def recordEmissions_def Let_def)
  have no_record:
    "getUtilityEmissionsFactorsByDivision env stub (queryParams env d thru)
          = Inr FirstRowWithoutRecord
       \<longrightarrow> getCo2Emissions env stub utility thru usage usage_uom
             = Inl (TypeError
                 ''Cannot read properties of undefined (reading 'percent_of_renewables')'')"
    using query by (simp add: getCo2Emissions_def)
  have same_division: "division_id (queryParams env d thru) = division_id d"
    "division_type (queryParams env d thru) = division_type d"
    by (simp_all add: queryParams_def)
  from query same_division year_omitted year_added year_falsy year_extracted no_rows first_row
    no_record
  show ?thesis
    by (intro conjI)
qed

theorem factor_lookup_contract_witness:
  "year (queryParams example_env
           \<lparr>division_id = Str ''WECC'', division_type = Str ''NERC_REGION''\<rparr> ''last January'') = None
   \<and> getCo2Emissions example_env [] ''U3'' ''last January'' (Str ''1000'') (Str ''MWh'')
       = calculate example_env generation_factor (Str ''1000'') (Str ''MWh'')
   \<and> recordEmissions example_env [] ''U3'' ''P1'' ''2020-01-01'' ''2020-01-31''
         (Str ''1000'') (Str ''MWh'') Undefined Undefined
       = Inl (Error ''No utility emissions factor found for given query'')
   \<and> year (queryParams example_env
             \<lparr>division_id = Str ''CA'', division_type = Str ''STATE''\<rparr> ''2020-01-31'')
       = Some (Num (Finite 2020))
   \<and> getCo2Emissions example_env [] ''U1'' ''2020-01-31'' (Str ''1000'') (Str ''MWh'')
       = calculate example_env example_factor (Str ''1000'') (Str ''MWh'')
   \<and> recordEmissions example_env [] ''U1'' ''P1'' ''2020-01-01'' ''2020-01-31''
         (Str ''1000'') (Str ''MWh'') (Str ''http://u'') (Str ''abc'')
       = Inr (\<lparr>uuid = Str ''md5:U1P12020-01-012020-01-31'', utilityId = Str ''U1'',
               partyId = Str ''P1'', fromDate = Str ''2020-01-01'',
               thruDate = Str ''2020-01-31'', emissionsAmount = Num (Finite 227),
               renewableEnergyUseAmount = Num (Finite 400),
               nonrenewableEnergyUseAmount = Num (Finite 600), energyUseUom = Str ''MWh'',
               factorSource = Str ''eGrid 2020 STATE CA'', url = Str ''http://u'',
               md5 = Str ''abc'', tokenId = Null\<rparr>,
              [(Str ''md5:U1P12020-01-012020-01-31'',
                \<lparr>uuid = Str ''md5:U1P12020-01-012020-01-31'', utilityId = Str ''U1'',
                 partyId = Str ''P1'', fromDate = Str ''2020-01-01'',
                 thruDate = Str ''2020-01-31'', emissionsAmount = Num (Finite 227),
                 renewableEnergyUseAmount = Num (Finite 400),
                 nonrenewableEnergyUseAmount = Num (Finite 600), energyUseUom = Str ''MWh'',
                 factorSource = Str ''eGrid 2020 STATE CA'', url = Str ''http://u'',
                 md5 = Str ''abc'', tokenId = Null\<rparr>)])"
proof -
  let ?item3 = "\<lparr>state_province = Str [],
                  divisions = \<lparr>division_id = Str ''WECC'', division_type = Str ''NERC_REGION''\<rparr>\<rparr>"
  let ?d3 = "\<lparr>division_id = Str ''WECC'', division_type = Str ''NERC_REGION''\<rparr>"
  have found3: "getUtilityLookupItem example_env [] ''U3'' = Inr ?item3"
    by (simp add: example_env_def example_lookup_def)
  have resolved3: "newDivision example_env ?item3 = Inr ?d3"
    by (simp add: newDivision_def hasStateData_def isNonUSCountry_def char_toLowerCase_def)
  have id3: "truthy (division_id ?d3)"
    by simp
  have throws: "get_full_year_from_date example_env ''last January'' = Inl (Error ''invalid date'')"
    by (simp add: example_env_def)
  have widened: "getUtilityEmissionsFactorsByDivision example_env []
                 (queryParams example_env ?d3 ''last January'') = Inr (Rows [generation_factor])"
    by (simp add: example_defs queryParams_def)
  have rows3: "getUtilityEmissionsFactorsByDivision example_env []
                 (queryParams example_env ?d3 ''2020-01-31'') = Inr (Rows [])"
    by (simp add: example_defs queryParams_def)
  note no_year = factor_lookup_contract [OF found3 resolved3 id3, where thru = "''last January''"
      and usage = "Str ''1000''" and usage_uom = "Str ''MWh''"]
  note other_year = factor_lookup_contract [OF found3 resolved3 id3, where thru = "''2020-01-31''"
      and usage = "Str ''1000''" and usage_uom = "Str ''MWh''" and party = "''P1''"
      and from_date = "''2020-01-01''" and link = Undefined and hash = Undefined]
  let ?item1 = "\<lparr>state_province = Str ''CA'',
                  divisions = \<lparr>division_id = Str ''USA'', division_type = Str ''country''\<rparr>\<rparr>"
  let ?d1 = "\<lparr>division_id = Str ''CA'', division_type = Str ''STATE''\<rparr>"
  have found1: "getUtilityLookupItem example_env [] ''U1'' = Inr ?item1"
    by (simp add: example_env_def example_lookup_def)
  have resolved1: "newDivision example_env ?item1 = Inr ?d1"
    by (simp add: newDivision_def hasStateData_def isNonUSCountry_def char_toLowerCase_def)
  have id1: "truthy (division_id ?d1)"
    by simp
  have returns: "get_full_year_from_date example_env ''2020-01-31'' = Inr (Num (Finite 2020))
      \<and> truthy (Num (Finite 2020))"
    by (simp add: example_env_def)
  have rows1: "getUtilityEmissionsFactorsByDivision example_env []
                 (queryParams example_env ?d1 ''2020-01-31'') = Inr (Rows [example_factor])"
    by (simp add: example_defs queryParams_def)
  note scenario = factor_lookup_contract [OF found1 resolved1 id1, where thru = "''2020-01-31''"
      and usage = "Str ''1000''" and usage_uom = "Str ''MWh''" and party = "''P1''"
      and from_date = "''2020-01-01''" and link = "Str ''http://u''" and hash = "Str ''abc''"]
  from no_year throws have "year (queryParams example_env ?d3 ''last January'') = None"
    by blast
  moreover from no_year widened
  have "getCo2Emissions example_env [] ''U3'' ''last January'' (Str ''1000'') (Str ''MWh'')
        = calculate example_env generation_factor (Str ''1000'') (Str ''MWh'')"
    by blast
  moreover from other_year rows3
  have "recordEmissions example_env [] ''U3'' ''P1'' ''2020-01-01'' ''2020-01-31''
          (Str ''1000'') (Str ''MWh'') Undefined Undefined
        = Inl (Error ''No utility emissions factor found for given query'')"
    by blast
  moreover from scenario returns
  have "year (queryParams example_env ?d1 ''2020-01-31'') = Some (Num (Finite 2020))"
    by blast
  moreover from scenario rows1
  have "getCo2Emissions example_env [] ''U1'' ''2020-01-31'' (Str ''1000'') (Str ''MWh'')
        = calculate example_env example_factor (Str ''1000'') (Str ''MWh'')"
    by blast
  moreover from scenario rows1 example_factor_run
  have "recordEmissions example_env [] ''U1'' ''P1'' ''2020-01-01'' ''2020-01-31''
         (Str ''1000'') (Str ''MWh'') (Str ''http://u'') (Str ''abc'')
       = Inr (\<lparr>uuid = Str ''md5:U1P12020-01-012020-01-31'', utilityId = Str ''U1'',
               partyId = Str ''P1'', fromDate = Str ''2020-01-01'',
               thruDate = Str ''2020-01-31'', emissionsAmount = Num (Finite 227),
               renewableEnergyUseAmount = Num (Finite 400),
               nonrenewableEnergyUseAmount = Num (Finite 600), energyUseUom = Str ''MWh'',
               factorSource = Str ''eGrid 2020 STATE CA'', url = Str ''http://u'',
               md5 = Str ''abc'', tokenId = Null\<rparr>,
              [(Str ''md5:U1P12020-01-012020-01-31'',
                \<lparr>uuid = Str ''md5:U1P12020-01-012020-01-31'', utilityId = Str ''U1'',
                 partyId = Str ''P1'', fromDate = Str ''2020-01-01'',
                 thruDate = Str ''2020-01-31'', emissionsAmount = Num (Finite 227),
                 renewableEnergyUseAmount = Num (Finite 400),
                 nonrenewableEnergyUseAmount = Num (Finite 600), energyUseUom = Str ''MWh'',
                 factorSource = Str ''eGrid 2020 STATE CA'', url = Str ''http://u'',
                 md5 = Str ''abc'', tokenId = Null\<rparr>)])"
    by (simp add: example_env_def Let_def)
  ultimately show ?thesis
    by (intro conjI)
qed

section \<open>The calculator\<close>

text \<open>
  C2 (the branch on \<^verbatim>\<open>percent_of_renewables\<close>). When the first factor returned has a
  truthy \<^verbatim>\<open>percent_of_renewables\<close> and the two unit factors of its split
  \<^verbatim>\<open>co2_equivalent_emissions_uom\<close> are found, \<^verbatim>\<open>getCo2Emissions\<close> returns a result in grams
  whose emissions are the factor's emissions times the usage times the ratio of the unit
  factors, and whose shares are the usage times the hundredth of the percentage and the usage
  times one minus that hundredth. The products, quotients and difference are those of
  JavaScript numbers: each rounds to binary64, overflows to an infinity and propagates what
  is not a number.
\<close>

theorem percent_branch_correct:
  assumes factor: "getEmissionsFactor env stub utility thru = Inr (Rows (f # others))"
    and selected: "truthy (percent_of_renewables f)"
    and mass: "get_uom_factor env
        (at_index (split CHR ''/'' (ToString env (co2_equivalent_emissions_uom f))) 0) = Inr mass"
    and energy: "get_uom_factor env
        (at_index (split CHR ''/'' (ToString env (co2_equivalent_emissions_uom f))) 1) = Inr energy"
  shows "getCo2Emissions env stub utility thru usage usage_uom
     = Inr \<lparr>emissions_value =
              ToNumber env (co2_equivalent_emissions f) * ToNumber env usage
                * (ToNumber env mass / ToNumber env energy),
            emissions_uom = ''g'',
            co2_division_type = item_division_type f, co2_division_id = item_division_id f,
            renewable_energy_use_amount =
              ToNumber env usage * (ToNumber env (percent_of_renewables f) / Finite 100),
            nonrenewable_energy_use_amount =
              ToNumber env usage
                * (Finite 1 - ToNumber env (percent_of_renewables f) / Finite 100),
            co2_year = item_year f\<rparr>"
  using assms by (simp add: getCo2Emissions_def calculate_def percent_branch_def Let_def)

text \<open>
  The scenario of section 8: utility \<open>U1\<close> resolves to the state \<open>CA\<close>, whose factor has 40
  percent of renewables and 500 lbs/MWh; a usage of 1000 MWh gives 400 and 600, and 227 grams
  with the unit factors 454 and 1000000 of the instance.
\<close>

theorem percent_branch_scenario:
  "getCo2Emissions example_env [] ''U1'' ''2020-01-31'' (Num (Finite 1000)) (Str ''MWh'')
     = Inr \<lparr>emissions_value = Finite 227, emissions_uom = ''g'',
            co2_division_type = Str ''STATE'', co2_division_id = Str ''CA'',
            renewable_energy_use_amount = Finite 400,
            nonrenewable_energy_use_amount = Finite 600,
            co2_year = Num (Finite 2020)\<rparr>"
proof -
  have factor: "getEmissionsFactor example_env [] ''U1'' ''2020-01-31''
      = Inr (Rows (example_factor # []))"
    by (simp add: example_defs getEmissionsFactor_def newDivision_def hasStateData_def
          isNonUSCountry_def queryParams_def char_toLowerCase_def)
  have uom: "split CHR ''/'' (ToString example_env (co2_equivalent_emissions_uom example_factor))
      = [''lbs'', ''MWh'']"
    by (simp add: example_factor_def)
  have selected: "truthy (percent_of_renewables example_factor)"
    by (simp add: example_factor_def)
  have mass: "get_uom_factor example_env
      (at_index (split CHR ''/'' (ToString example_env (co2_equivalent_emissions_uom example_factor))) 0)
      = Inr (Num (Finite 454))"
    unfolding uom by (simp add: at_index_def example_env_def example_uom_factor_def)
  have energy: "get_uom_factor example_env
      (at_index (split CHR ''/'' (ToString example_env (co2_equivalent_emissions_uom example_factor))) 1)
      = Inr (Num (Finite 1000000))"
    unfolding uom by (simp add: at_index_def example_env_def example_uom_factor_def)
  have emissions: "Finite 500 * Finite 1000 * (Finite 454 / Finite 1000000) = Finite 227"
    by (simp add: round64_defs Let_def)
  have renewable: "Finite 1000 * (Finite 40 / Finite 100) = Finite 400"
    by (simp add: round64_defs Let_def)
  have nonrenewable: "Finite 1000 * (Finite 1 - Finite 40 / Finite 100) = Finite 600"
    by (simp add: round64_defs Let_def)
  have numbers: "ToNumber example_env (co2_equivalent_emissions example_factor) = Finite 500"
    "ToNumber example_env (percent_of_renewables example_factor) = Finite 40"
    "ToNumber example_env (Num (Finite 1000)) = Finite 1000"
    "ToNumber example_env (Num (Finite 454)) = Finite 454"
    "ToNumber example_env (Num (Finite 1000000)) = Finite 1000000"
    by (simp_all add: example_factor_def)
  have fields: "item_division_type example_factor = Str ''STATE''"
    "item_division_id example_factor = Str ''CA''" "item_year example_factor = Num (Finite 2020)"
    by (simp_all add: example_factor_def)
  from percent_branch_correct [OF factor selected mass energy, where usage = "Num (Finite 1000)"
      and usage_uom = "Str ''MWh''"]
  show ?thesis
    unfolding numbers fields emissions renewable nonrenewable .
qed

text \<open>
  C10 (the branch is chosen by truthiness). On the first factor returned, a falsy
  \<^verbatim>\<open>percent_of_renewables\<close>, the number zero and the empty string among them, makes the
  outcome of \<^verbatim>\<open>getCo2Emissions\<close> that of the branch on \<^verbatim>\<open>net_generation\<close>, whose results
  are in tons; a truthy one makes it that of the other branch, whose results are in grams.
\<close>

theorem branch_by_truthiness:
  assumes factor: "getEmissionsFactor env stub utility thru = Inr (Rows (f # others))"
  shows "(\<not> truthy (percent_of_renewables f)
            \<longrightarrow> getCo2Emissions env stub utility thru usage usage_uom
                  = net_generation_branch env f usage usage_uom)
       \<and> (truthy (percent_of_renewables f)
            \<longrightarrow> getCo2Emissions env stub utility thru usage usage_uom
                  = percent_branch env f usage)
       \<and> (\<forall>r. net_generation_branch env f usage usage_uom = Inr r \<longrightarrow> emissions_uom r = ''tons'')
       \<and> (\<forall>r. percent_branch env f usage = Inr r \<longrightarrow> emissions_uom r = ''g'')
       \<and> \<not> truthy (Num (Finite 0)) \<and> \<not> truthy (Str [])"
proof -
  have chosen: "getCo2Emissions env stub utility thru usage usage_uom
      = (if truthy (percent_of_renewables f) then percent_branch env f usage
         else net_generation_branch env f usage usage_uom)"
    using factor by (simp add: getCo2Emissions_def calculate_def)
  have tons: "\<forall>r. net_generation_branch env f usage usage_uom = Inr r \<longrightarrow> emissions_uom r = ''tons''"
    by (auto simp add: net_generation_branch_def Let_def split: sum.splits)
  have grams: "\<forall>r. percent_branch env f usage = Inr r \<longrightarrow> emissions_uom r = ''g''"
    by (auto simp add: percent_branch_def Let_def split: sum.splits)
  from chosen tons grams show ?thesis
    by simp
qed

theorem branch_by_truthiness_witness:
  "percent_of_renewables generation_factor = Num (Finite 0)
   \<and> getCo2Emissions example_env [] ''U3'' ''2019-12-31'' (Str ''1000'') (Str ''MWh'')
       = net_generation_branch example_env generation_factor (Str ''1000'') (Str ''MWh'')
   \<and> (\<exists>r. getCo2Emissions example_env [] ''U3'' ''2019-12-31'' (Str ''1000'') (Str ''MWh'') = Inr r
         \<and> emissions_uom r = ''tons'')"
proof -
  let ?r = "\<lparr>emissions_value = Finite 50, emissions_uom = ''tons'',
             co2_division_type = Str ''NERC_REGION'', co2_division_id = Str ''WECC'',
             renewable_energy_use_amount = Finite 250,
             nonrenewable_energy_use_amount = Finite 750,
             co2_year = Num (Finite 2019)\<rparr>"
  have factor: "getEmissionsFactor example_env [] ''U3'' ''2019-12-31''
      = Inr (Rows (generation_factor # []))"
    by (simp add: example_defs getEmissionsFactor_def newDivision_def hasStateData_def
          isNonUSCountry_def queryParams_def char_toLowerCase_def)
  have zero: "percent_of_renewables generation_factor = Num (Finite 0)"
    by (simp add: generation_factor_def)
  note chosen = branch_by_truthiness [OF factor, where usage = "Str ''1000''"
      and usage_uom = "Str ''MWh''"]
  from chosen zero
  have branch: "getCo2Emissions example_env [] ''U3'' ''2019-12-31'' (Str ''1000'') (Str ''MWh'')
      = net_generation_branch example_env generation_factor (Str ''1000'') (Str ''MWh'')"
    by simp
  have "net_generation_branch example_env generation_factor (Str ''1000'') (Str ''MWh'') = Inr ?r"
    by (simp add: example_defs net_generation_branch_def Let_def round64_defs)
  with chosen branch
  have "\<exists>r. getCo2Emissions example_env [] ''U3'' ''2019-12-31'' (Str ''1000'') (Str ''MWh'') = Inr r
         \<and> emissions_uom r = ''tons''"
    by simp
  with zero branch show ?thesis
    by simp
qed

text \<open>
  C3 (division by zero). The claim asks for a rejection; the branch on \<^verbatim>\<open>net_generation\<close>
  tests no divisor. A factor whose \<^verbatim>\<open>net_generation\<close> and generation figures are zero gives
  infinite emissions and shares that are not numbers.
\<close>

theorem zero_net_generation_returns_infinity:
  "calculate example_env zero_generation_factor (Num (Finite 1000)) (Str ''MWh'')
     = Inr \<lparr>emissions_value = Infinity, emissions_uom = ''tons'',
            co2_division_type = Str ''NERC_REGION'', co2_division_id = Str ''WECC'',
            renewable_energy_use_amount = NaN, nonrenewable_energy_use_amount = NaN,
            co2_year = Num (Finite 2019)\<rparr>"
  by (simp add: example_defs contract_defs round64_defs)

text \<open>
  C3, as the calculator behaves. On the branch on \<^verbatim>\<open>net_generation\<close>, when the four unit
  factors are found, the calculation returns; with a zero \<^verbatim>\<open>net_generation\<close> the emissions
  are infinite or not a number, and with a zero total generation so are both shares of the
  usage.
\<close>

theorem zero_divisor_not_rejected:
  assumes falsy: "\<not> truthy (percent_of_renewables f)"
    and lookups: "get_uom_factor env usage_uom = Inr f_usage"
      "get_uom_factor env (net_generation_uom f) = Inr f_net"
      "get_uom_factor env (co2_equivalent_emissions_uom f) = Inr f_co2"
      "get_uom_factor env (Str ''tons'') = Inr f_tons"
  shows "\<exists>r. calculate env f usage usage_uom = Inr r
     \<and> (ToNumber env (net_generation f) = Finite 0 \<longrightarrow> \<not> is_finite (emissions_value r))
     \<and> (ToNumber env (non_renewables f) + ToNumber env (renewables f) = Finite 0
          \<longrightarrow> \<not> is_finite (renewable_energy_use_amount r)
            \<and> \<not> is_finite (nonrenewable_energy_use_amount r))"
  using assms
  by (simp add: calculate_def net_generation_branch_def Let_def
        times_not_finite_left times_not_finite_right divide_by_zero_not_finite)

theorem zero_divisor_not_rejected_witness:
  "\<exists>r. calculate example_env zero_generation_factor (Num (Finite 1000)) (Str ''MWh'') = Inr r
     \<and> \<not> is_finite (emissions_value r)
     \<and> \<not> is_finite (renewable_energy_use_amount r)
     \<and> \<not> is_finite (nonrenewable_energy_use_amount r)"
proof -
  have falsy: "\<not> truthy (percent_of_renewables zero_generation_factor)"
    by (simp add: zero_generation_factor_def)
  have f_usage: "get_uom_factor example_env (Str ''MWh'') = Inr (Num (Finite 1000000))"
    by (simp add: example_env_def example_uom_factor_def)
  have f_net: "get_uom_factor example_env (net_generation_uom zero_generation_factor)
      = Inr (Num (Finite 1000000))"
    by (simp add: example_env_def example_uom_factor_def zero_generation_factor_def)
  have f_co2: "get_uom_factor example_env (co2_equivalent_emissions_uom zero_generation_factor)
      = Inr (Num (Finite 1000000))"
    by (simp add: example_env_def example_uom_factor_def zero_generation_factor_def)
  have f_tons: "get_uom_factor example_env (Str ''tons'') = Inr (Num (Finite 1000000))"
    by (simp add: example_env_def example_uom_factor_def)
  have net_zero: "ToNumber example_env (net_generation zero_generation_factor) = Finite 0"
    by (simp add: zero_generation_factor_def)
  have total_zero: "ToNumber example_env (non_renewables zero_generation_factor)
      + ToNumber example_env (renewables zero_generation_factor) = Finite 0"
    by (simp add: zero_generation_factor_def round64_def)
  from zero_divisor_not_rejected [OF falsy f_usage f_net f_co2 f_tons,
      where usage = "Num (Finite 1000)"] net_zero total_zero
  show ?thesis
    by blast
qed

text \<open>
  C4 (usage conservation). The claim gives the two shares a sum equal to the usage, within the
  tolerance of floating point, for every usable factor and every usage. On the branch on
  \<^verbatim>\<open>net_generation\<close>, a factor whose two generation figures are \<open>2\<^sup>1\<^sup>0\<^sup>2\<^sup>3\<close> has a total that
  overflows to infinity, which is not zero: both shares of a usage of 1000 are zero, and so is
  their sum.
\<close>

theorem generation_overflow_loses_usage:
  "calculate example_env huge_generation_factor (Num (Finite 1000)) (Str ''MWh'')
     = Inr \<lparr>emissions_value = Finite 50, emissions_uom = ''tons'',
            co2_division_type = Str ''NERC_REGION'', co2_division_id = Str ''WECC'',
            renewable_energy_use_amount = Finite 0, nonrenewable_energy_use_amount = Finite 0,
            co2_year = Num (Finite 2019)\<rparr>"
  by (simp add: example_defs contract_defs round64_defs)

text \<open>
  C4, within the range of binary64. Whenever the calculation returns on a usage \<open>u\<close> of
  magnitude at most \<open>2\<^sup>1\<^sup>0\<^sup>0\<^sup>0\<close>, the sum of the two shares is a finite number that differs from
  \<open>u\<close> by at most \<open>\<bar>u\<bar> / 2\<^sup>4\<^sup>8 + 1 / 2\<^sup>1\<^sup>0\<^sup>7\<^sup>3\<close>: on the branch on \<^verbatim>\<open>percent_of_renewables\<close> for
  a percentage of magnitude at most 100, on the branch on \<^verbatim>\<open>net_generation\<close> for generation
  figures that are not negative and whose total lies between \<open>1 / 2\<^sup>1\<^sup>0\<^sup>0\<^sup>0\<close> and \<open>2\<^sup>1\<^sup>0\<^sup>0\<^sup>0\<close>.
\<close>

theorem usage_conservation_within_tolerance:
  assumes returned: "calculate env f usage usage_uom = Inr r"
    and amount: "ToNumber env usage = Finite u"
    and bounded: "\<bar>u\<bar> \<le> 2 ^ 1000"
  shows "(truthy (percent_of_renewables f) \<and> ToNumber env (percent_of_renewables f) = Finite p
            \<and> \<bar>p\<bar> \<le> 100
            \<longrightarrow> (\<exists>s. renewable_energy_use_amount r + nonrenewable_energy_use_amount r = Finite s
                    \<and> \<bar>s - u\<bar> \<le> \<bar>u\<bar> / 2 ^ 48 + 1 / 2 ^ 1073))
       \<and> (\<not> truthy (percent_of_renewables f) \<and> ToNumber env (renewables f) = Finite a
            \<and> ToNumber env (non_renewables f) = Finite b \<and> 0 \<le> a \<and> 0 \<le> b
            \<and> 1 / 2 ^ 1000 \<le> b + a \<and> b + a \<le> 2 ^ 1000
            \<longrightarrow> (\<exists>s. renewable_energy_use_amount r + nonrenewable_energy_use_amount r = Finite s
                    \<and> \<bar>s - u\<bar> \<le> \<bar>u\<bar> / 2 ^ 48 + 1 / 2 ^ 1073))"
proof (intro conjI impI)
  assume percent: "truthy (percent_of_renewables f)
      \<and> ToNumber env (percent_of_renewables f) = Finite p \<and> \<bar>p\<bar> \<le> 100"
  with returned amount
  have shares: "renewable_energy_use_amount r = Finite u * (Finite p / Finite 100)
      \<and> nonrenewable_energy_use_amount r = Finite u * (Finite 1 - Finite p / Finite 100)"
    by (auto simp add: calculate_def percent_branch_def Let_def split: sum.splits)
  from percent have "\<bar>p\<bar> \<le> 100"
    by simp
  from percent_shares_within [OF bounded this]
  show "\<exists>s. renewable_energy_use_amount r + nonrenewable_energy_use_amount r = Finite s
      \<and> \<bar>s - u\<bar> \<le> \<bar>u\<bar> / 2 ^ 48 + 1 / 2 ^ 1073"
    by (simp only: shares)
next
  assume generation: "\<not> truthy (percent_of_renewables f) \<and> ToNumber env (renewables f) = Finite a
      \<and> ToNumber env (non_renewables f) = Finite b \<and> 0 \<le> a \<and> 0 \<le> b
      \<and> 1 / 2 ^ 1000 \<le> b + a \<and> b + a \<le> 2 ^ 1000"
  with returned amount
  have shares: "renewable_energy_use_amount r = Finite u * (Finite a / (Finite b + Finite a))
      \<and> nonrenewable_energy_use_amount r = Finite u * (Finite b / (Finite b + Finite a))"
    by (auto simp add: calculate_def net_generation_branch_def Let_def split: sum.splits)
  from generation have "0 \<le> a" "0 \<le> b" "1 / 2 ^ 1000 \<le> b + a" "b + a \<le> 2 ^ 1000"
    by simp_all
  from generation_shares_within [OF bounded this]
  show "\<exists>s. renewable_energy_use_amount r + nonrenewable_energy_use_amount r = Finite s
      \<and> \<bar>s - u\<bar> \<le> \<bar>u\<bar> / 2 ^ 48 + 1 / 2 ^ 1073"
    by (simp only: shares)
qed

theorem usage_conservation_within_tolerance_witness:
  "(\<exists>r. calculate example_env percent_33_factor (Str ''1000'') (Str ''MWh'') = Inr r
       \<and> renewable_energy_use_amount r + nonrenewable_energy_use_amount r
           = Finite (8796093022207999 / 8796093022208)
       \<and> \<bar>8796093022207999 / 8796093022208 - 1000\<bar> \<le> \<bar>1000 :: real\<bar> / 2 ^ 48 + 1 / 2 ^ 1073)
   \<and> (\<exists>r. calculate example_env generation_factor (Str ''1000'') (Str ''MWh'') = Inr r
       \<and> renewable_energy_use_amount r + nonrenewable_energy_use_amount r = Finite 1000
       \<and> \<bar>1000 - 1000\<bar> \<le> \<bar>1000 :: real\<bar> / 2 ^ 48 + 1 / 2 ^ 1073)"
proof -
  have amount: "ToNumber example_env (Str ''1000'') = Finite 1000"
    by (simp add: example_env_def)
  have bounded: "\<bar>1000 :: real\<bar> \<le> 2 ^ 1000"
    by simp
  have percent: "truthy (percent_of_renewables percent_33_factor)
      \<and> ToNumber example_env (percent_of_renewables percent_33_factor) = Finite 33
      \<and> \<bar>33 :: real\<bar> \<le> 100"
    by (simp add: percent_33_factor_def)
  have generation: "\<not> truthy (percent_of_renewables generation_factor)
      \<and> ToNumber example_env (renewables generation_factor) = Finite 500
      \<and> ToNumber example_env (non_renewables generation_factor) = Finite 1500
      \<and> (0::real) \<le> 500 \<and> (0::real) \<le> 1500
      \<and> 1 / 2 ^ 1000 \<le> (1500::real) + 500 \<and> (1500::real) + 500 \<le> 2 ^ 1000"
    by (simp add: generation_factor_def)
  have sum_33: "Finite 330 + Finite (5893382324879359 / 8796093022208)
      = Finite (8796093022207999 / 8796093022208)"
    by (simp add: round64_defs Let_def)
  have sum_generation: "Finite 250 + Finite 750 = Finite 1000"
    by (simp add: round64_defs Let_def)
  from usage_conservation_within_tolerance [OF percent_33_factor_run amount bounded,
      where p = 33] percent
  obtain s where "Finite 330 + Finite (5893382324879359 / 8796093022208) = Finite s"
    and "\<bar>s - 1000\<bar> \<le> \<bar>1000 :: real\<bar> / 2 ^ 48 + 1 / 2 ^ 1073"
    by (auto simp only: Co2Emissions.select_convs)
  with sum_33
  have "\<bar>8796093022207999 / 8796093022208 - 1000\<bar> \<le> \<bar>1000 :: real\<bar> / 2 ^ 48 + 1 / 2 ^ 1073"
    by (simp only: jsnum.inject)
  with sum_33 percent_33_factor_run
  have first: "\<exists>r. calculate example_env percent_33_factor (Str ''1000'') (Str ''MWh'') = Inr r
       \<and> renewable_energy_use_amount r + nonrenewable_energy_use_amount r
           = Finite (8796093022207999 / 8796093022208)
       \<and> \<bar>8796093022207999 / 8796093022208 - 1000\<bar> \<le> \<bar>1000 :: real\<bar> / 2 ^ 48 + 1 / 2 ^ 1073"
    by (simp only: Co2Emissions.select_convs simp_thms ex_simps sum.inject)
  from usage_conservation_within_tolerance [OF generation_factor_run amount bounded,
      where a = 500 and b = 1500] generation
  obtain t where "Finite 250 + Finite 750 = Finite t"
    and "\<bar>t - 1000\<bar> \<le> \<bar>1000 :: real\<bar> / 2 ^ 48 + 1 / 2 ^ 1073"
    by (auto simp only: Co2Emissions.select_convs)
  with sum_generation
  have "\<bar>1000 - 1000\<bar> \<le> \<bar>1000 :: real\<bar> / 2 ^ 48 + 1 / 2 ^ 1073"
    by (simp only: jsnum.inject)
  with sum_generation generation_factor_run
  have second: "\<exists>r. calculate example_env generation_factor (Str ''1000'') (Str ''MWh'') = Inr r
       \<and> renewable_energy_use_amount r + nonrenewable_energy_use_amount r = Finite 1000
       \<and> \<bar>1000 - 1000\<bar> \<le> \<bar>1000 :: real\<bar> / 2 ^ 48 + 1 / 2 ^ 1073"
    by (simp only: Co2Emissions.select_convs simp_thms ex_simps sum.inject)
  from first second show ?thesis
    by (rule conjI)
qed

section \<open>The fingerprint\<close>

text \<open>
  C6 (fingerprint identity). A successful \<^verbatim>\<open>recordEmissions\<close> returns a record whose
  \<^verbatim>\<open>uuid\<close> is the hash of the concatenated utility, party and two dates, and has handed
  that record to the emissions list under this key; no argument of the call is the key. A
  successful \<^verbatim>\<open>updateEmissionsRecord\<close> returns a record whose \<^verbatim>\<open>uuid\<close> is the caller's, and
  has handed it to the list under the caller's key; every call of it hands the list a record
  with the caller's \<^verbatim>\<open>uuid\<close> under that key.
\<close>

theorem fingerprint_identity:
  "(recordEmissions env stub utility party from_date thru amount uom link hash = Inr (r, stub')
      \<longrightarrow> uuid r = Str (MD5 env (utility @ party @ from_date @ thru))
          \<and> addEmissionsRecord env stub r (uuid r) = Inr stub')
   \<and> (updateEmissionsRecord env stub key utility2 party2 from2 thru2 amount2 renewable
          nonrenewable uom2 source link2 hash2 token = Inr (r2, stub2)
      \<longrightarrow> uuid r2 = key \<and> updateEmissionsRecord_in_list env stub r2 key = Inr stub2)
   \<and> (\<exists>handed. uuid handed = key
        \<and> updateEmissionsRecord env stub key utility2 party2 from2 thru2 amount2 renewable
            nonrenewable uom2 source link2 hash2 token
          = (case updateEmissionsRecord_in_list env stub handed key of
               Inl e \<Rightarrow> Inl e
             | Inr stub3 \<Rightarrow> Inr (handed, stub3)))"
proof (intro conjI)
  show "recordEmissions env stub utility party from_date thru amount uom link hash = Inr (r, stub')
      \<longrightarrow> uuid r = Str (MD5 env (utility @ party @ from_date @ thru))
          \<and> addEmissionsRecord env stub r (uuid r) = Inr stub'"
    by (auto simp add: recordEmissions_def Let_def split: sum.splits)
  show "updateEmissionsRecord env stub key utility2 party2 from2 thru2 amount2 renewable
          nonrenewable uom2 source link2 hash2 token = Inr (r2, stub2)
      \<longrightarrow> uuid r2 = key \<and> updateEmissionsRecord_in_list env stub r2 key = Inr stub2"
    by (auto simp add: updateEmissionsRecord_def Let_def split: sum.splits)
  let ?handed = "\<lparr>uuid = key, utilityId = utility2, partyId = party2, fromDate = from2,
      thruDate = thru2, emissionsAmount = Num (parseFloat env amount2),
      renewableEnergyUseAmount = Num (parseFloat env renewable),
      nonrenewableEnergyUseAmount = Num (parseFloat env nonrenewable),
      energyUseUom = uom2, factorSource = source, url = link2, md5 = hash2, tokenId = token\<rparr>"
  have "uuid ?handed = key
        \<and> updateEmissionsRecord env stub key utility2 party2 from2 thru2 amount2 renewable
            nonrenewable uom2 source link2 hash2 token
          = (case updateEmissionsRecord_in_list env stub ?handed key of
               Inl e \<Rightarrow> Inl e
             | Inr stub3 \<Rightarrow> Inr (?handed, stub3))"
    by (simp add: updateEmissionsRecord_def Let_def)
  then show "\<exists>handed. uuid handed = key
        \<and> updateEmissionsRecord env stub key utility2 party2 from2 thru2 amount2 renewable
            nonrenewable uom2 source link2 hash2 token
          = (case updateEmissionsRecord_in_list env stub handed key of
               Inl e \<Rightarrow> Inl e
             | Inr stub3 \<Rightarrow> Inr (handed, stub3))"
    by (rule exI)
qed

theorem fingerprint_identity_witness:
  "\<exists>r stub' r2 stub2.
     recordEmissions example_env [] ''U1'' ''P1'' ''2020-01-01'' ''2020-01-31''
         (Str ''1000'') (Str ''MWh'') (Str ''http://u'') (Str ''abc'') = Inr (r, stub')
     \<and> uuid r = Str ''md5:U1P12020-01-012020-01-31''
     \<and> map fst stub' = [uuid r]
     \<and> updateEmissionsRecord example_env stub' (uuid r) (Str ''U1'') (Str ''P1'')
           (Str ''2020-01-01'') (Str ''2020-01-31'') (Num (Finite 226)) (Num (Finite 400))
           (Num (Finite 600)) (Str ''MWh'') (Str ''eGrid 2020 STATE CA'') (Str ''http://u'')
           (Str ''abc'') (Str ''token-7'') = Inr (r2, stub2)
     \<and> uuid r2 = uuid r
     \<and> map fst stub2 = [uuid r]"
proof -
  let ?key = "Str ''md5:U1P12020-01-012020-01-31''"
  let ?r = "\<lparr>uuid = ?key, utilityId = Str ''U1'', partyId = Str ''P1'',
             fromDate = Str ''2020-01-01'', thruDate = Str ''2020-01-31'',
             emissionsAmount = Num (Finite 227),
             renewableEnergyUseAmount = Num (Finite 400),
             nonrenewableEnergyUseAmount = Num (Finite 600),
             energyUseUom = Str ''MWh'', factorSource = Str ''eGrid 2020 STATE CA'',
             url = Str ''http://u'', md5 = Str ''abc'', tokenId = Null\<rparr>"
  let ?r2 = "\<lparr>uuid = ?key, utilityId = Str ''U1'', partyId = Str ''P1'',
             fromDate = Str ''2020-01-01'', thruDate = Str ''2020-01-31'',
             emissionsAmount = Num (Finite 226),
             renewableEnergyUseAmount = Num (Finite 400),
             nonrenewableEnergyUseAmount = Num (Finite 600),
             energyUseUom = Str ''MWh'', factorSource = Str ''eGrid 2020 STATE CA'',
             url = Str ''http://u'', md5 = Str ''abc'', tokenId = Str ''token-7''\<rparr>"
  have recorded: "recordEmissions example_env [] ''U1'' ''P1'' ''2020-01-01'' ''2020-01-31''
         (Str ''1000'') (Str ''MWh'') (Str ''http://u'') (Str ''abc'') = Inr (?r, [(?key, ?r)])"
    by (simp add: example_defs contract_defs round64_defs)
  have updated: "updateEmissionsRecord example_env [(?key, ?r)] ?key (Str ''U1'') (Str ''P1'')
           (Str ''2020-01-01'') (Str ''2020-01-31'') (Num (Finite 226)) (Num (Finite 400))
           (Num (Finite 600)) (Str ''MWh'') (Str ''eGrid 2020 STATE CA'') (Str ''http://u'')
           (Str ''abc'') (Str ''token-7'') = Inr (?r2, [(?key, ?r2)])"
    by (simp add: example_env_def updateEmissionsRecord_def Let_def)
  have hash: "MD5 example_env (''U1'' @ ''P1'' @ ''2020-01-01'' @ ''2020-01-31'')
      = ''md5:U1P12020-01-012020-01-31''"
    by (simp add: example_env_def)
  from fingerprint_identity [THEN conjunct1, rule_format, OF recorded]
  have derived: "uuid ?r = Str (MD5 example_env (''U1'' @ ''P1'' @ ''2020-01-01'' @ ''2020-01-31''))"
    by simp
  from fingerprint_identity [THEN conjunct2, THEN conjunct1, rule_format, OF updated]
  have kept: "uuid ?r2 = ?key"
    by simp
  from recorded updated derived kept hash show ?thesis
    by simp
qed

section \<open>The client's failures\<close>

text \<open>
  C8 (client failure shaping). The claim gives every failure of the three operations, a failed
  connection included, the same structured result. A failed connection is handled on its own
  and returns a string, as the first theorem shows on \<^verbatim>\<open>recordEmissions\<close>.
\<close>

theorem connect_error_returns_text:
  "invoke_recordEmissions unreachable_client (Str ''admin'') (Str ''auditor1'') (Str ''U1'')
       (Str ''P1'') (Str ''2020-01-01'') (Str ''2020-01-31'') (Str ''1000'') (Str ''MWh'')
     = Inr (Text ''ERROR: Error: connection refused'')"
  by (simp add: client_defs invoke_defs named_text_def)

text \<open>
  C8, as the client behaves. None of the three operations throws. After a failed connection
  each returns the string \<^verbatim>\<open>ERROR:\<close> followed by the error. In \<^verbatim>\<open>recordEmissions\<close> and
  \<^verbatim>\<open>getEmissionsData\<close> a failed transaction and a result that does not parse reach the outer
  handler, and whatever reaches it is turned into an object whose \<^verbatim>\<open>info\<close> is
  \<^verbatim>\<open>Failed to submit transaction:\<close> (or \<^verbatim>\<open>evaluate\<close>) followed by the error, with the
  caller's utility, party, dates, amount and unit (or the \<^verbatim>\<open>uuid\<close>) beside it.
\<close>

theorem client_failure_shaping:
  "(\<exists>r. invoke_recordEmissions env userId orgName utility party from_date thru amount uom = Inr r)
   \<and> (\<exists>r. invoke_getEmissionsData env userId orgName key = Inr r)
   \<and> (\<exists>r. invoke_getAllEmissionsData env userId orgName utility party = Inr r)
   \<and> (\<forall>e. buildWallet env orgName = Inr () \<and> gateway_connect env userId = Inl e
        \<longrightarrow> invoke_recordEmissions env userId orgName utility party from_date thru amount uom
              = Inr (Text (''ERROR: '' @ error_text e))
          \<and> invoke_getEmissionsData env userId orgName key = Inr (Text (''ERROR: '' @ error_text e))
          \<and> invoke_getAllEmissionsData env userId orgName utility party
              = Inr (Text (''ERROR: '' @ error_text e)))
   \<and> (\<forall>e fresh. buildWallet env orgName = Inr () \<and> gateway_connect env userId = Inr ()
          \<and> getContract env = Inr () \<and> getNewUuid env = Inr fresh
          \<and> (submitTransaction env ''recordEmissions''
                (recordEmissions_arguments fresh utility party from_date thru amount uom) = Inl e
              \<or> (\<exists>stringResult. submitTransaction env ''recordEmissions''
                    (recordEmissions_arguments fresh utility party from_date thru amount uom)
                      = Inr stringResult
                  \<and> JSON_parse env stringResult = Inl e))
        \<longrightarrow> invoke_recordEmissions_try env userId orgName utility party from_date thru amount uom
              = Inl e)
   \<and> (\<forall>e. invoke_recordEmissions_try env userId orgName utility party from_date thru amount uom
              = Inl e
        \<longrightarrow> invoke_recordEmissions env userId orgName utility party from_date thru amount uom
              = Inr (Object
                  [(''info'', JPrim (Str (''Failed to submit transaction: '' @ error_text e))),
                   (''utilityId'', JPrim utility), (''partyId'', JPrim party),
                   (''fromDate'', JPrim from_date), (''thruDate'', JPrim thru),
                   (''energyUseAmount'', JPrim amount), (''energyUseUom'', JPrim uom)]))
   \<and> (\<forall>e. buildWallet env orgName = Inr () \<and> gateway_connect env userId = Inr ()
          \<and> getContract env = Inr ()
          \<and> (evaluateTransaction env ''getEmissionsData'' [key] = Inl e
              \<or> (\<exists>stringResult. evaluateTransaction env ''getEmissionsData'' [key] = Inr stringResult
                  \<and> JSON_parse env stringResult = Inl e))
        \<longrightarrow> invoke_getEmissionsData_try env userId orgName key = Inl e)
   \<and> (\<forall>e. invoke_getEmissionsData_try env userId orgName key = Inl e
        \<longrightarrow> invoke_getEmissionsData env userId orgName key
              = Inr (Object
                  [(''info'', JPrim (Str (''Failed to evaluate transaction: '' @ error_text e))),
                   (''uuid'', JPrim key)]))"
proof (intro conjI)
  show "\<exists>r. invoke_recordEmissions env userId orgName utility party from_date thru amount uom = Inr r"
    by (simp add: invoke_recordEmissions_def split: sum.splits)
  show "\<exists>r. invoke_getEmissionsData env userId orgName key = Inr r"
    by (simp add: invoke_getEmissionsData_def split: sum.splits)
  show "\<exists>r. invoke_getAllEmissionsData env userId orgName utility party = Inr r"
    by (simp add: invoke_getAllEmissionsData_def split: sum.splits)
  show "\<forall>e. buildWallet env orgName = Inr () \<and> gateway_connect env userId = Inl e
        \<longrightarrow> invoke_recordEmissions env userId orgName utility party from_date thru amount uom
              = Inr (Text (''ERROR: '' @ error_text e))
          \<and> invoke_getEmissionsData env userId orgName key = Inr (Text (''ERROR: '' @ error_text e))
          \<and> invoke_getAllEmissionsData env userId orgName utility party
              = Inr (Text (''ERROR: '' @ error_text e))"
    by (simp add: invoke_defs)
  show "\<forall>e fresh. buildWallet env orgName = Inr () \<and> gateway_connect env userId = Inr ()
          \<and> getContract env = Inr () \<and> getNewUuid env = Inr fresh
          \<and> (submitTransaction env ''recordEmissions''
                (recordEmissions_arguments fresh utility party from_date thru amount uom) = Inl e
              \<or> (\<exists>stringResult. submitTransaction env ''recordEmissions''
                    (recordEmissions_arguments fresh utility party from_date thru amount uom)
                      = Inr stringResult
                  \<and> JSON_parse env stringResult = Inl e))
        \<longrightarrow> invoke_recordEmissions_try env userId orgName utility party from_date thru amount uom
              = Inl e"
    by (auto simp add: invoke_recordEmissions_try_def)
  show "\<forall>e. invoke_recordEmissions_try env userId orgName utility party from_date thru amount uom
              = Inl e
        \<longrightarrow> invoke_recordEmissions env userId orgName utility party from_date thru amount uom
              = Inr (Object
                  [(''info'', JPrim (Str (''Failed to submit transaction: '' @ error_text e))),
                   (''utilityId'', JPrim utility), (''partyId'', JPrim party),
                   (''fromDate'', JPrim from_date), (''thruDate'', JPrim thru),
                   (''energyUseAmount'', JPrim amount), (''energyUseUom'', JPrim uom)])"
    by (simp add: invoke_recordEmissions_def)
  show "\<forall>e. buildWallet env orgName = Inr () \<and> gateway_connect env userId = Inr ()
          \<and> getContract env = Inr ()
          \<and> (evaluateTransaction env ''getEmissionsData'' [key] = Inl e
              \<or> (\<exists>stringResult. evaluateTransaction env ''getEmissionsData'' [key] = Inr stringResult
                  \<and> JSON_parse env stringResult = Inl e))
        \<longrightarrow> invoke_getEmissionsData_try env userId orgName key = Inl e"
    by (auto simp add: invoke_getEmissionsData_try_def)
  show "\<forall>e. invoke_getEmissionsData_try env userId orgName key = Inl e
        \<longrightarrow> invoke_getEmissionsData env userId orgName key
              = Inr (Object
                  [(''info'', JPrim (Str (''Failed to evaluate transaction: '' @ error_text e))),
                   (''uuid'', JPrim key)])"
    by (simp add: invoke_getEmissionsData_def)
qed

theorem client_failure_shaping_witness:
  "invoke_recordEmissions rejecting_client (Str ''admin'') (Str ''auditor1'') (Str ''U1'')
       (Str ''P1'') (Str ''2020-01-01'') (Str ''2020-01-31'') (Str ''1000'') (Str ''MWh'')
     = Inr (Object
         [(''info'', JPrim (Str ''Failed to submit transaction: Error: endorsement failed'')),
          (''utilityId'', JPrim (Str ''U1'')), (''partyId'', JPrim (Str ''P1'')),
          (''fromDate'', JPrim (Str ''2020-01-01'')), (''thruDate'', JPrim (Str ''2020-01-31'')),
          (''energyUseAmount'', JPrim (Str ''1000'')), (''energyUseUom'', JPrim (Str ''MWh''))])
   \<and> invoke_getEmissionsData garbled_client (Str ''admin'') (Str ''auditor1'') (Str ''k1'')
     = Inr (Object
         [(''info'', JPrim (Str ''Failed to evaluate transaction: SyntaxError: Unexpected token'')),
          (''uuid'', JPrim (Str ''k1''))])
   \<and> invoke_getAllEmissionsData unreachable_client (Str ''admin'') (Str ''auditor1'') (Str ''U1'')
       (Str ''P1'')
     = Inr (Text ''ERROR: Error: connection refused'')"
proof -
  note rejecting = client_failure_shaping [where env = rejecting_client and userId = "Str ''admin''"
      and orgName = "Str ''auditor1''" and utility = "Str ''U1''" and party = "Str ''P1''"
      and from_date = "Str ''2020-01-01''" and thru = "Str ''2020-01-31''"
      and amount = "Str ''1000''" and uom = "Str ''MWh''"]
  have rejected: "buildWallet rejecting_client (Str ''auditor1'') = Inr ()
      \<and> gateway_connect rejecting_client (Str ''admin'') = Inr ()
      \<and> getContract rejecting_client = Inr ()
      \<and> getNewUuid rejecting_client = Inr (Str ''fresh-uuid'')
      \<and> submitTransaction rejecting_client ''recordEmissions''
            (recordEmissions_arguments (Str ''fresh-uuid'') (Str ''U1'') (Str ''P1'')
               (Str ''2020-01-01'') (Str ''2020-01-31'') (Str ''1000'') (Str ''MWh''))
          = Inl (Error ''endorsement failed'')"
    by (simp add: client_defs)
  from rejecting rejected
  have "invoke_recordEmissions_try rejecting_client (Str ''admin'') (Str ''auditor1'') (Str ''U1'')
       (Str ''P1'') (Str ''2020-01-01'') (Str ''2020-01-31'') (Str ''1000'') (Str ''MWh'')
     = Inl (Error ''endorsement failed'')"
    by blast
  with rejecting
  have first: "invoke_recordEmissions rejecting_client (Str ''admin'') (Str ''auditor1'') (Str ''U1'')
       (Str ''P1'') (Str ''2020-01-01'') (Str ''2020-01-31'') (Str ''1000'') (Str ''MWh'')
     = Inr (Object
         [(''info'', JPrim (Str (''Failed to submit transaction: ''
                                   @ error_text (Error ''endorsement failed'')))),
          (''utilityId'', JPrim (Str ''U1'')), (''partyId'', JPrim (Str ''P1'')),
          (''fromDate'', JPrim (Str ''2020-01-01'')), (''thruDate'', JPrim (Str ''2020-01-31'')),
          (''energyUseAmount'', JPrim (Str ''1000'')), (''energyUseUom'', JPrim (Str ''MWh''))])"
    by blast
  note garbled = client_failure_shaping [where env = garbled_client and userId = "Str ''admin''"
      and orgName = "Str ''auditor1''" and key = "Str ''k1''"]
  have unparsed: "buildWallet garbled_client (Str ''auditor1'') = Inr ()
      \<and> gateway_connect garbled_client (Str ''admin'') = Inr ()
      \<and> getContract garbled_client = Inr ()
      \<and> evaluateTransaction garbled_client ''getEmissionsData'' [Str ''k1''] = Inr ''<html>''
      \<and> JSON_parse garbled_client ''<html>'' = Inl (SyntaxError ''Unexpected token'')"
    by (simp add: client_defs)
  from garbled unparsed
  have "invoke_getEmissionsData_try garbled_client (Str ''admin'') (Str ''auditor1'') (Str ''k1'')
     = Inl (SyntaxError ''Unexpected token'')"
    by blast
  with garbled
  have second: "invoke_getEmissionsData garbled_client (Str ''admin'') (Str ''auditor1'') (Str ''k1'')
     = Inr (Object
         [(''info'', JPrim (Str (''Failed to evaluate transaction: ''
                                   @ error_text (SyntaxError ''Unexpected token'')))),
          (''uuid'', JPrim (Str ''k1''))])"
    by blast
  note unreachable = client_failure_shaping [where env = unreachable_client
      and userId = "Str ''admin''" and orgName = "Str ''auditor1''" and utility = "Str ''U1''"
      and party = "Str ''P1''"]
  have refused: "buildWallet unreachable_client (Str ''auditor1'') = Inr ()
      \<and> gateway_connect unreachable_client (Str ''admin'') = Inl (Error ''connection refused'')"
    by (simp add: client_defs)
  from unreachable refused
  have third: "invoke_getAllEmissionsData unreachable_client (Str ''admin'') (Str ''auditor1'')
       (Str ''U1'') (Str ''P1'')
     = Inr (Text (''ERROR: '' @ error_text (Error ''connection refused'')))"
    by blast
  from first second third show ?thesis
    by (simp add: named_text_def)
qed

section \<open>The arguments at the boundary\<close>



end
